theory Spec2Isabelle
  imports Main "HOL-Library.Word"
begin

unbundle bit_operations_syntax

section \<open>Python values and the runtime the module runs on\<close>

text \<open>
  The module \<^verbatim>\<open>fishroom/models.py\<close> is written against the marshmallow 2 API
  (\<^verbatim>\<open>schema.load(x).data\<close>, \<^verbatim>\<open>_serialize(self, value, attr, obj)\<close>) and the
  standard \<^verbatim>\<open>json\<close> module. Exceptions are values of type \<open>error\<close>; a
  function that may raise returns \<open>error + 'a\<close> with \<open>Inl\<close> for the raise.
\<close>

datatype error = ValidationError | TypeError | ValueError | AttributeError | UnicodeDecodeError

text \<open>
  The values that reach the field classes: what \<^verbatim>\<open>json.loads\<close> produces
  (\<^verbatim>\<open>None\<close>, booleans, integers, strings, lists, dictionaries with
  string keys) and tuples, which \<^verbatim>\<open>_serialize\<close> produces. A \<^verbatim>\<open>str\<close> is a
  list of 8-bit characters; floats are not part of the modelled values.
\<close>

datatype pyval =
    PNone
  | PBool bool
  | PInt int
  | PStr string
  | PList "pyval list"
  | PTuple "pyval list"
  | PDict "(string \<times> pyval) list"

type_synonym byte = "8 word"

text \<open>
  Library functions whose results depend on text syntax are parameters of the
  model, collected in one record: \<^verbatim>\<open>json.loads\<close>, \<^verbatim>\<open>json.dumps\<close>, the text that
  \<^verbatim>\<open>bytes.decode('utf-8')\<close> yields on well-formed input, and \<^verbatim>\<open>int(s)\<close> on a
  string \<open>s\<close> (\<open>None\<close> where it raises \<^verbatim>\<open>ValueError\<close>).
\<close>

record pyrt =
  json_loads :: "string \<Rightarrow> error + pyval"
  json_dumps :: "pyval \<Rightarrow> string"
  decode_text :: "byte list \<Rightarrow> string"
  int_of_str :: "string \<Rightarrow> int option"

text \<open>\<^verbatim>\<open>not value\<close> is \<open>\<not> truthy value\<close>.\<close>

fun truthy :: "pyval \<Rightarrow> bool" where
  "truthy PNone = False"
| "truthy (PBool b) = b"
| "truthy (PInt n) = (n \<noteq> 0)"
| "truthy (PStr s) = (s \<noteq> [])"
| "truthy (PList xs) = (xs \<noteq> [])"
| "truthy (PTuple xs) = (xs \<noteq> [])"
| "truthy (PDict d) = (d \<noteq> [])"

text \<open>
  Iteration: a string yields its characters as one-character strings, a
  dictionary its keys; \<^verbatim>\<open>None\<close>, booleans and integers are not iterable.
\<close>

fun py_iter :: "pyval \<Rightarrow> error + pyval list" where
  "py_iter (PStr s) = Inr (map (\<lambda>c. PStr [c]) s)"
| "py_iter (PList xs) = Inr xs"
| "py_iter (PTuple xs) = Inr xs"
| "py_iter (PDict d) = Inr (map (\<lambda>kv. PStr (fst kv)) d)"
| "py_iter PNone = Inl TypeError"
| "py_iter (PBool b) = Inl TypeError"
| "py_iter (PInt n) = Inl TypeError"

text \<open>\<^verbatim>\<open>int(x)\<close>; \<^verbatim>\<open>bool\<close> is a subclass of \<^verbatim>\<open>int\<close> with \<^verbatim>\<open>True == 1\<close>.\<close>

fun py_int :: "pyrt \<Rightarrow> pyval \<Rightarrow> error + int" where
  "py_int L (PInt n) = Inr n"
| "py_int L (PBool b) = Inr (if b then 1 else 0)"
| "py_int L (PStr s) = (case int_of_str L s of None \<Rightarrow> Inl ValueError | Some n \<Rightarrow> Inr n)"
| "py_int L PNone = Inl TypeError"
| "py_int L (PList xs) = Inl TypeError"
| "py_int L (PTuple xs) = Inl TypeError"
| "py_int L (PDict d) = Inl TypeError"

section \<open>Color and ColorField\<close>

record Color =
  fg :: int
  bg :: "int option"

text \<open>
  \<^verbatim>\<open>fg, bg = map(int, value)\<close>: the iterator must yield exactly two elements and
  \<^verbatim>\<open>int\<close> must accept both.
\<close>

definition unpack_ints :: "pyrt \<Rightarrow> pyval \<Rightarrow> error + int \<times> int" where
  "unpack_ints L v =
     (case py_iter v of
        Inl e \<Rightarrow> Inl e
      | Inr xs \<Rightarrow>
         (case xs of
            [x, y] \<Rightarrow>
              (case py_int L x of
                 Inl e \<Rightarrow> Inl e
               | Inr a \<Rightarrow> (case py_int L y of Inl e \<Rightarrow> Inl e | Inr b \<Rightarrow> Inr (a, b)))
          | _ \<Rightarrow> Inl ValueError))"

definition ColorField_serialize :: "Color option \<Rightarrow> pyval" where
  "ColorField_serialize v =
     (case v of
        None \<Rightarrow> PStr ''''
      | Some c \<Rightarrow> PTuple [PInt (fg c), (case bg c of None \<Rightarrow> PNone | Some b \<Rightarrow> PInt b)])"

text \<open>
  The bare \<^verbatim>\<open>except\<close> turns every exception of the unpacking into
  \<^verbatim>\<open>ValidationError\<close>.
\<close>

definition ColorField_deserialize :: "pyrt \<Rightarrow> pyval \<Rightarrow> error + Color option" where
  "ColorField_deserialize L v =
     (if \<not> truthy v then Inr None
      else case v of
             PInt n \<Rightarrow> Inr (Some \<lparr>fg = n, bg = None\<rparr>)
           | PBool b \<Rightarrow> Inr (Some \<lparr>fg = (if b then 1 else 0), bg = None\<rparr>)
           | _ \<Rightarrow> (case unpack_ints L v of
                     Inl e \<Rightarrow> Inl ValidationError
                   | Inr (a, b) \<Rightarrow> Inr (Some \<lparr>fg = a, bg = Some b\<rparr>)))"

section \<open>TextStyle and TextStyleField\<close>

definition NORMAL :: int where "NORMAL = 0"
definition COLOR :: int where "COLOR = 1"
definition ITALIC :: int where "ITALIC = 2"
definition BOLD :: int where "BOLD = 4"
definition UNDERLINE :: int where "UNDERLINE = 8"

text \<open>
  A \<^verbatim>\<open>TextStyle\<close> object has the attribute \<^verbatim>\<open>style\<close>; the attribute
  \<^verbatim>\<open>color\<close> exists only when the constructor was given a color
  (\<open>color = None\<close> is "no such attribute").
\<close>

record TextStyle =
  style :: int
  color :: "Color option"

definition TextStyle_init :: "Color option \<Rightarrow> int \<Rightarrow> int \<Rightarrow> int \<Rightarrow> int \<Rightarrow> TextStyle" where
  "TextStyle_init c italic bold underline st =
     (let s1 = (if c \<noteq> None then st OR COLOR else st);
          s2 = s1 OR (if italic \<noteq> 0 then ITALIC else 0);
          s3 = s2 OR (if bold \<noteq> 0 then BOLD else 0);
          s4 = s3 OR (if underline \<noteq> 0 then UNDERLINE else 0)
      in \<lparr>style = s4, color = c\<rparr>)"

definition style_list :: "int \<Rightarrow> string list" where
  "style_list st =
     (if st AND ITALIC \<noteq> 0 then [''italic''] else []) @
     (if st AND BOLD \<noteq> 0 then [''bold''] else []) @
     (if st AND UNDERLINE \<noteq> 0 then [''underline''] else [])"

text \<open>\<^verbatim>\<open>str(n)\<close> for an integer, and \<^verbatim>\<open>sep.join(xs)\<close>.\<close>

fun digits_of :: "nat \<Rightarrow> string" where
  "digits_of n =
     (if n < 10 then [char_of (48 + n)]
      else digits_of (n div 10) @ [char_of (48 + n mod 10)])"

declare digits_of.simps [simp del]

definition str_int :: "int \<Rightarrow> string" where
  "str_int n = (if n < 0 then CHR ''-'' # digits_of (nat (- n)) else digits_of (nat n))"

fun join :: "string \<Rightarrow> string list \<Rightarrow> string" where
  "join sep [] = []"
| "join sep [x] = x"
| "join sep (x # y # ys) = x @ sep @ join sep (y # ys)"



text \<open>
  \<^verbatim>\<open>set(value)\<close> raises \<^verbatim>\<open>TypeError\<close> when \<open>value\<close> is not iterable or one of
  its elements is not hashable (a list, a dictionary, a tuple holding one).
\<close>

fun hashable :: "pyval \<Rightarrow> bool" where
  "hashable (PList xs) = False"
| "hashable (PDict d) = False"
| "hashable (PTuple xs) = list_all hashable xs"
| "hashable PNone = True"
| "hashable (PBool b) = True"
| "hashable (PInt n) = True"
| "hashable (PStr s) = True"

definition py_set :: "pyval \<Rightarrow> error + pyval set" where
  "py_set v =
     (case py_iter v of
        Inl e \<Rightarrow> Inl e
      | Inr xs \<Rightarrow> if list_all hashable xs then Inr (set xs) else Inl TypeError)"

definition TextStyleField_serialize :: "int option \<Rightarrow> pyval" where
  "TextStyleField_serialize v =
     (case v of None \<Rightarrow> PList [] | Some st \<Rightarrow> PList (map PStr (style_list st)))"

definition TextStyleField_deserialize :: "pyval \<Rightarrow> error + int" where
  "TextStyleField_deserialize v =
     (case py_set v of
        Inl e \<Rightarrow> Inl ValidationError
      | Inr styles \<Rightarrow>
          (let s0 = NORMAL;
               s1 = (if PStr ''italic'' \<in> styles then s0 OR ITALIC else s0);
               s2 = (if PStr ''bold'' \<in> styles then s1 OR BOLD else s1);
               s3 = (if PStr ''underline'' \<in> styles then s2 OR UNDERLINE else s2)
           in Inr s3))"

section \<open>The marshmallow 2 schema machinery\<close>

text \<open>
  In marshmallow 2, \<^verbatim>\<open>Schema.load\<close> returns the pair \<^verbatim>\<open>(data, errors)\<close>. A schema
  raises on invalid input only when it is strict (\<^verbatim>\<open>strict=True\<close> in the
  constructor or in \<^verbatim>\<open>class Meta\<close>); \<^verbatim>\<open>TextStyleSchema()\<close> and \<^verbatim>\<open>MessageSchema()\<close>
  are created with no options. So \<^verbatim>\<open>load\<close> catches the \<^verbatim>\<open>ValidationError\<close> of a
  field, records it in \<^verbatim>\<open>errors\<close> and leaves the field out of \<^verbatim>\<open>data\<close>; the
  module reads \<^verbatim>\<open>.data\<close> only. Any other exception of a field propagates.
\<close>

definition bind_err :: "error + 'a \<Rightarrow> ('a \<Rightarrow> error + 'b) \<Rightarrow> error + 'b" where
  "bind_err r f = (case r of Inl e \<Rightarrow> Inl e | Inr x \<Rightarrow> f x)"

definition lenient :: "error + 'a \<Rightarrow> error + 'a option" where
  "lenient r =
     (case r of
        Inr x \<Rightarrow> Inr (Some x)
      | Inl e \<Rightarrow> if e = ValidationError then Inr None else Inl e)"

text \<open>
  \<^verbatim>\<open>Field.deserialize\<close> of a field that does not allow \<^verbatim>\<open>None\<close>: a null value
  fails validation before \<^verbatim>\<open>_deserialize\<close> is called.
\<close>

definition Field_deserialize :: "(pyval \<Rightarrow> error + 'a) \<Rightarrow> pyval \<Rightarrow> error + 'a" where
  "Field_deserialize f v = (if v = PNone then Inl ValidationError else f v)"

text \<open>
  A key that the input lacks is skipped (\<open>None\<close>); an input that is not a
  dictionary is reported as an error of the schema and no field is loaded.
\<close>

definition load_field :: "(pyval \<Rightarrow> error + 'a) \<Rightarrow> pyval \<Rightarrow> string \<Rightarrow> error + 'a option" where
  "load_field f data k =
     (case data of
        PDict d \<Rightarrow>
          (case map_of d k of
             None \<Rightarrow> Inr None
           | Some v \<Rightarrow> lenient (Field_deserialize f v))
      | _ \<Rightarrow> Inr None)"

definition String_deserialize :: "pyval \<Rightarrow> error + string" where
  "String_deserialize v = (case v of PStr s \<Rightarrow> Inr s | _ \<Rightarrow> Inl ValidationError)"

definition OneOf :: "string list \<Rightarrow> string \<Rightarrow> error + string" where
  "OneOf choices x = (if x \<in> set choices then Inr x else Inl ValidationError)"

definition Boolean_deserialize :: "pyval \<Rightarrow> error + bool" where
  "Boolean_deserialize v =
     (case v of
        PBool b \<Rightarrow> Inr b
      | PInt n \<Rightarrow> if n = 1 then Inr True else if n = 0 then Inr False else Inl ValidationError
      | PStr s \<Rightarrow>
          if s \<in> set [''t'', ''T'', ''true'', ''True'', ''TRUE'', ''1''] then Inr True
          else if s \<in> set [''f'', ''F'', ''false'', ''False'', ''FALSE'', ''0''] then Inr False
          else Inl ValidationError
      | _ \<Rightarrow> Inl ValidationError)"

definition Dict_deserialize :: "pyval \<Rightarrow> error + (string \<times> pyval) list" where
  "Dict_deserialize v = (case v of PDict d \<Rightarrow> Inr d | _ \<Rightarrow> Inl ValidationError)"

section \<open>TextStyleSchema, TextStyle.dump and TextStyle.load\<close>

text \<open>The keyword arguments that \<^verbatim>\<open>TextStyleSchema().load(x).data\<close> holds.\<close>

record TextStyle_kwargs =
  kw_color :: "Color option option"
  kw_style :: "int option"

text \<open>
  \<^verbatim>\<open>color = ColorField(missing=None)\<close>: a missing key is loaded as \<^verbatim>\<open>None\<close>, and
  \<^verbatim>\<open>None\<close> is allowed and returned as it is.
  \<^verbatim>\<open>style = TextStyleField(missing=[])\<close>: a missing key is loaded as the empty list.
  The result is \<open>None\<close> when the input is \<^verbatim>\<open>None\<close>.
\<close>

definition TextStyleSchema_load :: "pyrt \<Rightarrow> pyval \<Rightarrow> error + TextStyle_kwargs option" where
  "TextStyleSchema_load L data =
     (case data of
        PNone \<Rightarrow> Inr None
      | PDict d \<Rightarrow>
          bind_err
            (let raw = (case map_of d ''color'' of None \<Rightarrow> PNone | Some v \<Rightarrow> v)
             in if raw = PNone then Inr (Some None) else lenient (ColorField_deserialize L raw))
            (\<lambda>c. bind_err
               (let raw = (case map_of d ''style'' of None \<Rightarrow> PList [] | Some v \<Rightarrow> v)
                in lenient (Field_deserialize TextStyleField_deserialize raw))
               (\<lambda>s. Inr (Some \<lparr>kw_color = c, kw_style = s\<rparr>)))
      | _ \<Rightarrow> Inr (Some \<lparr>kw_color = None, kw_style = None\<rparr>))"

text \<open>
  \<^verbatim>\<open>Schema.dump\<close> leaves out a field whose attribute the object lacks.
\<close>

definition TextStyle_dump :: "TextStyle \<Rightarrow> pyval" where
  "TextStyle_dump t =
     PDict ((case color t of
               None \<Rightarrow> []
             | Some c \<Rightarrow> [(''color'', ColorField_serialize (Some c))]) @
            [(''style'', TextStyleField_serialize (Some (style t)))])"

text \<open>\<^verbatim>\<open>TextStyle(**data)\<close>; \<^verbatim>\<open>**None\<close> raises \<^verbatim>\<open>TypeError\<close>.\<close>

definition TextStyle_load :: "pyrt \<Rightarrow> pyval \<Rightarrow> error + TextStyle" where
  "TextStyle_load L data =
     bind_err (TextStyleSchema_load L data)
       (\<lambda>r. case r of
               None \<Rightarrow> Inl TypeError
             | Some kw \<Rightarrow>
                 Inr (TextStyle_init
                        (case kw_color kw of None \<Rightarrow> None | Some c \<Rightarrow> c) 0 0 0
                        (case kw_style kw of None \<Rightarrow> 0 | Some s \<Rightarrow> s)))"

section \<open>RichTextField\<close>

definition is_str :: "pyval \<Rightarrow> bool" where
  "is_str v = (case v of PStr s \<Rightarrow> True | _ \<Rightarrow> False)"

definition RichTextField_serialize :: "(TextStyle \<times> pyval) list option \<Rightarrow> error + pyval" where
  "RichTextField_serialize v =
     (case v of
        None \<Rightarrow> Inr PNone
      | Some runs \<Rightarrow>
          if list_all (\<lambda>r. is_str (snd r)) runs
          then Inr (PList (map (\<lambda>r. PTuple [TextStyle_dump (fst r), snd r]) runs))
          else Inl ValidationError)"

text \<open>
  \<^verbatim>\<open>[(TextStyle.load(s), t) for s, t in value]\<close>: every element must unpack
  into exactly two parts.
\<close>

fun load_runs :: "pyrt \<Rightarrow> pyval list \<Rightarrow> error + (TextStyle \<times> pyval) list" where
  "load_runs L [] = Inr []"
| "load_runs L (e # es) =
     (case py_iter e of
        Inl x \<Rightarrow> Inl x
      | Inr parts \<Rightarrow>
          (case parts of
             [s, t] \<Rightarrow>
               bind_err (TextStyle_load L s)
                 (\<lambda>ts. bind_err (load_runs L es) (\<lambda>rs. Inr ((ts, t) # rs)))
           | _ \<Rightarrow> Inl ValueError))"

definition RichTextField_deserialize ::
  "pyrt \<Rightarrow> pyval \<Rightarrow> error + (TextStyle \<times> pyval) list option" where
  "RichTextField_deserialize L v =
     (if v = PNone then Inr None
      else case bind_err (py_iter v) (load_runs L) of
             Inl e \<Rightarrow> Inl ValidationError
           | Inr rs \<Rightarrow> Inr (Some rs))"

section \<open>MessageSchema and Message\<close>

definition message_types :: "string list" where
  "message_types =
     [''photo'', ''text'', ''sticker'', ''location'', ''audio'', ''command'',
      ''event'', ''file'', ''animation'', ''video'']"

record Message =
  channel :: string
  sender :: string
  receiver :: string
  content :: string
  rich_text :: "(TextStyle \<times> pyval) list option"
  mtype :: string
  date :: "string option"
  time :: "string option"
  media_url :: "string option"
  botmsg :: bool
  room :: "string option"
  opt :: "(string \<times> pyval) list"

text \<open>\<^verbatim>\<open>Message.__init__\<close> with every argument given; \<^verbatim>\<open>opt or {}\<close>.\<close>

definition Message_init ::
  "string \<Rightarrow> string \<Rightarrow> string \<Rightarrow> string \<Rightarrow> string \<Rightarrow> string option \<Rightarrow> string option \<Rightarrow>
   string option \<Rightarrow> bool \<Rightarrow> string option \<Rightarrow> (string \<times> pyval) list option \<Rightarrow>
   (TextStyle \<times> pyval) list option \<Rightarrow> Message" where
  "Message_init ch sn rcv cnt mt dt tm url bm rm op rt =
     \<lparr>channel = ch, sender = sn, receiver = rcv, content = cnt, rich_text = rt,
      mtype = mt, date = dt, time = tm, media_url = url, botmsg = bm, room = rm,
      opt = (case op of None \<Rightarrow> [] | Some d \<Rightarrow> d)\<rparr>"

text \<open>The keyword arguments that \<^verbatim>\<open>MessageSchema().loads(jstr).data\<close> holds.\<close>

record Message_kwargs =
  kw_channel :: "string option"
  kw_sender :: "string option"
  kw_receiver :: "string option"
  kw_mtype :: "string option"
  kw_media_url :: "string option"
  kw_content :: "string option"
  kw_rich_text :: "(TextStyle \<times> pyval) list option option"
  kw_date :: "string option"
  kw_time :: "string option"
  kw_botmsg :: "bool option"
  kw_room :: "string option"
  kw_opt :: "(string \<times> pyval) list option"

text \<open>
  \<^verbatim>\<open>Message(**data)\<close>: \<^verbatim>\<open>channel\<close>, \<^verbatim>\<open>sender\<close>, \<^verbatim>\<open>receiver\<close> and \<^verbatim>\<open>content\<close>
  have no default, so the call raises \<^verbatim>\<open>TypeError\<close> when one is missing; the
  other parameters take their defaults.
\<close>

definition Message_call :: "Message_kwargs \<Rightarrow> error + Message" where
  "Message_call kw =
     (case (kw_channel kw, kw_sender kw, kw_receiver kw, kw_content kw) of
        (Some ch, Some sn, Some rcv, Some cnt) \<Rightarrow>
          Inr (Message_init ch sn rcv cnt
                 (case kw_mtype kw of None \<Rightarrow> ''text'' | Some t \<Rightarrow> t)
                 (kw_date kw) (kw_time kw) (kw_media_url kw)
                 (case kw_botmsg kw of None \<Rightarrow> False | Some b \<Rightarrow> b)
                 (kw_room kw) (kw_opt kw)
                 (case kw_rich_text kw of None \<Rightarrow> None | Some rt \<Rightarrow> rt))
      | _ \<Rightarrow> Inl TypeError)"

definition MessageSchema_load :: "pyrt \<Rightarrow> pyval \<Rightarrow> error + Message_kwargs option" where
  "MessageSchema_load L data =
     (if data = PNone then Inr None
      else
        bind_err (load_field String_deserialize data ''channel'') (\<lambda>ch.
        bind_err (load_field String_deserialize data ''sender'') (\<lambda>sn.
        bind_err (load_field String_deserialize data ''receiver'') (\<lambda>rcv.
        bind_err (load_field (\<lambda>v. bind_err (String_deserialize v) (OneOf message_types))
                    data ''mtype'') (\<lambda>mt.
        bind_err (load_field String_deserialize data ''media_url'') (\<lambda>url.
        bind_err (load_field String_deserialize data ''content'') (\<lambda>cnt.
        bind_err (load_field (RichTextField_deserialize L) data ''rich_text'') (\<lambda>rt.
        bind_err (load_field String_deserialize data ''date'') (\<lambda>dt.
        bind_err (load_field String_deserialize data ''time'') (\<lambda>tm.
        bind_err (load_field Boolean_deserialize data ''botmsg'') (\<lambda>bm.
        bind_err (load_field String_deserialize data ''room'') (\<lambda>rm.
        bind_err (load_field Dict_deserialize data ''opt'') (\<lambda>op.
          Inr (Some \<lparr>kw_channel = ch, kw_sender = sn, kw_receiver = rcv, kw_mtype = mt,
                     kw_media_url = url, kw_content = cnt, kw_rich_text = rt,
                     kw_date = dt, kw_time = tm, kw_botmsg = bm, kw_room = rm,
                     kw_opt = op\<rparr>))))))))))))))"

definition opt_str :: "string option \<Rightarrow> pyval" where
  "opt_str v = (case v of None \<Rightarrow> PNone | Some s \<Rightarrow> PStr s)"

text \<open>
  \<^verbatim>\<open>MessageSchema().dump(m).data\<close>: one key per field, \<^verbatim>\<open>None\<close> attributes as
  null; a field whose \<^verbatim>\<open>_serialize\<close> raises \<^verbatim>\<open>ValidationError\<close> is left out.
\<close>

definition Message_dump :: "Message \<Rightarrow> pyval" where
  "Message_dump m =
     PDict ([(''channel'', PStr (channel m)), (''sender'', PStr (sender m)),
             (''receiver'', PStr (receiver m)), (''mtype'', PStr (mtype m)),
             (''media_url'', opt_str (media_url m)), (''content'', PStr (content m))] @
            (case RichTextField_serialize (rich_text m) of
               Inl e \<Rightarrow> []
             | Inr v \<Rightarrow> [(''rich_text'', v)]) @
            [(''date'', opt_str (date m)), (''time'', opt_str (time m)),
             (''botmsg'', PBool (botmsg m)), (''room'', opt_str (room m)),
             (''opt'', PDict (opt m))])"

definition Message_dumps :: "pyrt \<Rightarrow> Message \<Rightarrow> string" where
  "Message_dumps L m = json_dumps L (Message_dump m)"

text \<open>
  Well-formed UTF-8 (RFC 3629): no overlong forms, no surrogates, nothing above
  U+10FFFF. \<^verbatim>\<open>bytes.decode('utf-8')\<close> raises \<^verbatim>\<open>UnicodeDecodeError\<close> on
  anything else.
\<close>

definition cont :: "byte \<Rightarrow> bool" where
  "cont b = (0x80 \<le> b \<and> b \<le> 0xBF)"

fun utf8_valid :: "byte list \<Rightarrow> bool" where
  "utf8_valid [] = True"
| "utf8_valid (b # bs) =
     (if b \<le> 0x7F then utf8_valid bs
      else if 0xC2 \<le> b \<and> b \<le> 0xDF then
        (case bs of c1 # r \<Rightarrow> cont c1 \<and> utf8_valid r | _ \<Rightarrow> False)
      else if 0xE0 \<le> b \<and> b \<le> 0xEF then
        (case bs of
           c1 # c2 # r \<Rightarrow>
             (if b = 0xE0 then 0xA0 \<le> c1 \<and> c1 \<le> 0xBF
              else if b = 0xED then 0x80 \<le> c1 \<and> c1 \<le> 0x9F
              else cont c1) \<and> cont c2 \<and> utf8_valid r
         | _ \<Rightarrow> False)
      else if 0xF0 \<le> b \<and> b \<le> 0xF4 then
        (case bs of
           c1 # c2 # c3 # r \<Rightarrow>
             (if b = 0xF0 then 0x90 \<le> c1 \<and> c1 \<le> 0xBF
              else if b = 0xF4 then 0x80 \<le> c1 \<and> c1 \<le> 0x8F
              else cont c1) \<and> cont c2 \<and> cont c3 \<and> utf8_valid r
         | _ \<Rightarrow> False)
      else False)"

definition bytes_decode :: "pyrt \<Rightarrow> byte list \<Rightarrow> error + string" where
  "bytes_decode L b = (if utf8_valid b then Inr (decode_text L b) else Inl UnicodeDecodeError)"

datatype jstr = Str string | Bytes "byte list"

definition sentinel :: Message where
  "sentinel =
     Message_init ''fishroom'' ''fishroom'' ''None'' ''Error'' ''text''
       None None None False None None None"

text \<open>The body of the \<^verbatim>\<open>try\<close> block of \<^verbatim>\<open>Message.loads\<close>.\<close>

definition Message_try :: "pyrt \<Rightarrow> string \<Rightarrow> error + Message" where
  "Message_try L s =
     bind_err (json_loads L s) (\<lambda>v.
     bind_err (MessageSchema_load L v) (\<lambda>r.
       case r of None \<Rightarrow> Inl TypeError | Some kw \<Rightarrow> Message_call kw))"

text \<open>
  \<^verbatim>\<open>Message.loads\<close>: the decoding of a \<^verbatim>\<open>bytes\<close> argument comes before the
  \<^verbatim>\<open>try\<close>; the bare \<^verbatim>\<open>except\<close> answers every exception of the body with the
  fixed message.
\<close>

definition Message_loads :: "pyrt \<Rightarrow> jstr \<Rightarrow> error + Message" where
  "Message_loads L j =
     bind_err (case j of Bytes b \<Rightarrow> bytes_decode L b | Str s \<Rightarrow> Inr s)
       (\<lambda>s. Inr (case Message_try L s of Inl e \<Rightarrow> sentinel | Inr m \<Rightarrow> m))"

section \<open>A reference runtime\<close>

text \<open>
  One instance of the runtime record, used to run the model on concrete wire
  text: a reader and a writer for JSON text over the modelled values (integers
  as the only numbers), the text of a UTF-8 byte string whose characters fit in
  8 bits, and \<^verbatim>\<open>int\<close> on decimal numerals.
\<close>

definition is_digit :: "char \<Rightarrow> bool" where
  "is_digit c = (48 \<le> (of_char c :: nat) \<and> (of_char c :: nat) \<le> 57)"

definition is_space :: "char \<Rightarrow> bool" where
  "is_space c = (c \<in> set [CHR '' '', CHR 0x09, CHR 0x0A, CHR 0x0D])"

definition digits_val :: "string \<Rightarrow> int" where
  "digits_val s = foldl (\<lambda>a c. 10 * a + (int (of_char c) - 48)) 0 s"

fun skip_ws :: "string \<Rightarrow> string" where
  "skip_ws [] = []"
| "skip_ws (c # cs) = (if is_space c then skip_ws cs else c # cs)"

definition read_int :: "string \<Rightarrow> int option" where
  "read_int s =
     (let t = rev (skip_ws (rev (skip_ws s)));
          (neg, ds) = (case t of
                         [] \<Rightarrow> (False, [])
                       | c # cs \<Rightarrow>
                           if c = CHR ''-'' then (True, cs)
                           else if c = CHR ''+'' then (False, cs)
                           else (False, t))
      in if ds \<noteq> [] \<and> list_all is_digit ds
         then Some (if neg then - digits_val ds else digits_val ds)
         else None)"

definition hex_val :: "char \<Rightarrow> nat option" where
  "hex_val c =
     (let n = (of_char c :: nat) in
      if 48 \<le> n \<and> n \<le> 57 then Some (n - 48)
      else if 97 \<le> n \<and> n \<le> 102 then Some (n - 87)
      else if 65 \<le> n \<and> n \<le> 70 then Some (n - 55)
      else None)"

fun hex_num :: "nat \<Rightarrow> string \<Rightarrow> nat option" where
  "hex_num acc [] = Some acc"
| "hex_num acc (c # cs) =
     (case hex_val c of None \<Rightarrow> None | Some d \<Rightarrow> hex_num (16 * acc + d) cs)"

definition unescape :: "char \<Rightarrow> char option" where
  "unescape e =
     (if e = CHR 0x22 then Some (CHR 0x22)
      else if e = CHR 0x5C then Some (CHR 0x5C)
      else if e = CHR ''/'' then Some (CHR ''/'')
      else if e = CHR ''b'' then Some (CHR 0x08)
      else if e = CHR ''f'' then Some (CHR 0x0C)
      else if e = CHR ''n'' then Some (CHR 0x0A)
      else if e = CHR ''r'' then Some (CHR 0x0D)
      else if e = CHR ''t'' then Some (CHR 0x09)
      else None)"

text \<open>The rest of a string literal after its opening quote, and what follows it.\<close>

fun read_str :: "string \<Rightarrow> (string \<times> string) option" where
  "read_str [] = None"
| "read_str (c # cs) =
     (if c = CHR 0x22 then Some ([], cs)
      else if c = CHR 0x5C then
        (case cs of
           [] \<Rightarrow> None
         | e # r \<Rightarrow>
             if e = CHR ''u'' then
               (case hex_num 0 (take 4 r) of
                  None \<Rightarrow> None
                | Some n \<Rightarrow>
                    if length r < 4 \<or> 256 \<le> n then None
                    else map_option (apfst ((#) (char_of n))) (read_str (drop 4 r)))
             else
               (case unescape e of
                  None \<Rightarrow> None
                | Some ch \<Rightarrow> map_option (apfst ((#) ch)) (read_str r)))
      else if (of_char c :: nat) < 32 then None
      else map_option (apfst ((#) c)) (read_str cs))"

definition read_number :: "string \<Rightarrow> (pyval \<times> string) option" where
  "read_number s =
     (let (neg, t) = (case s of
                        [] \<Rightarrow> (False, [])
                      | c # cs \<Rightarrow> if c = CHR ''-'' then (True, cs) else (False, s));
          ds = takeWhile is_digit t;
          r = dropWhile is_digit t
      in if ds = [] \<or> (1 < length ds \<and> hd ds = CHR ''0'') then None
         else if r \<noteq> [] \<and> hd r \<in> set ''.eE'' then None
         else Some (PInt (if neg then - digits_val ds else digits_val ds), r))"

text \<open>A later value of a repeated key replaces the earlier one, in its place.\<close>

definition dict_cons :: "string \<Rightarrow> pyval \<Rightarrow> (string \<times> pyval) list \<Rightarrow> (string \<times> pyval) list" where
  "dict_cons k v d =
     (case map_of d k of
        None \<Rightarrow> (k, v) # d
      | Some w \<Rightarrow> (k, w) # filter (\<lambda>kv. fst kv \<noteq> k) d)"

text \<open>
  The recursive descent, with a bound on the number of nested calls; the text
  has more characters than calls are needed.
\<close>

fun read_value :: "nat \<Rightarrow> string \<Rightarrow> (pyval \<times> string) option"
  and read_items :: "nat \<Rightarrow> string \<Rightarrow> (pyval list \<times> string) option"
  and read_members :: "nat \<Rightarrow> string \<Rightarrow> ((string \<times> pyval) list \<times> string) option"
where
  "read_value 0 s = None"
| "read_value (Suc n) s =
     (case skip_ws s of
        [] \<Rightarrow> None
      | c # cs \<Rightarrow>
          if c = CHR ''{'' then
            (case skip_ws cs of
               [] \<Rightarrow> None
             | d # r \<Rightarrow>
                 if d = CHR ''}'' then Some (PDict [], r)
                 else map_option (apfst PDict) (read_members n (d # r)))
          else if c = CHR ''['' then
            (case skip_ws cs of
               [] \<Rightarrow> None
             | d # r \<Rightarrow>
                 if d = CHR '']'' then Some (PList [], r)
                 else map_option (apfst PList) (read_items n (d # r)))
          else if c = CHR 0x22 then map_option (apfst PStr) (read_str cs)
          else if take 4 (c # cs) = ''true'' then Some (PBool True, drop 4 (c # cs))
          else if take 5 (c # cs) = ''false'' then Some (PBool False, drop 5 (c # cs))
          else if take 4 (c # cs) = ''null'' then Some (PNone, drop 4 (c # cs))
          else read_number (c # cs))"
| "read_items 0 s = None"
| "read_items (Suc n) s =
     (case read_value n s of
        None \<Rightarrow> None
      | Some (v, r) \<Rightarrow>
          (case skip_ws r of
             [] \<Rightarrow> None
           | c # r' \<Rightarrow>
               if c = CHR '','' then map_option (apfst ((#) v)) (read_items n r')
               else if c = CHR '']'' then Some ([v], r')
               else None))"
| "read_members 0 s = None"
| "read_members (Suc n) s =
     (case skip_ws s of
        [] \<Rightarrow> None
      | q # s1 \<Rightarrow>
          if q \<noteq> CHR 0x22 then None
          else
            (case read_str s1 of
               None \<Rightarrow> None
             | Some (k, s2) \<Rightarrow>
                 (case skip_ws s2 of
                    [] \<Rightarrow> None
                  | c # s3 \<Rightarrow>
                      if c \<noteq> CHR '':'' then None
                      else
                        (case read_value n s3 of
                           None \<Rightarrow> None
                         | Some (v, s4) \<Rightarrow>
                             (case skip_ws s4 of
                                [] \<Rightarrow> None
                              | e # s5 \<Rightarrow>
                                  if e = CHR '','' then
                                    map_option (apfst (dict_cons k v)) (read_members n s5)
                                  else if e = CHR ''}'' then Some ([(k, v)], s5)
                                  else None)))))"

definition json_read :: "string \<Rightarrow> error + pyval" where
  "json_read s =
     (case read_value (2 * length s + 2) s of
        None \<Rightarrow> Inl ValueError
      | Some (v, r) \<Rightarrow> if skip_ws r = [] then Inr v else Inl ValueError)"

definition hex_digit :: "nat \<Rightarrow> char" where
  "hex_digit d = (if d < 10 then char_of (48 + d) else char_of (87 + d))"

definition escape_char :: "char \<Rightarrow> string" where
  "escape_char c =
     (if c = CHR 0x22 then [CHR 0x5C, CHR 0x22]
      else if c = CHR 0x5C then [CHR 0x5C, CHR 0x5C]
      else if c = CHR 0x0A then [CHR 0x5C, CHR ''n'']
      else if c = CHR 0x0D then [CHR 0x5C, CHR ''r'']
      else if c = CHR 0x09 then [CHR 0x5C, CHR ''t'']
      else if c = CHR 0x08 then [CHR 0x5C, CHR ''b'']
      else if c = CHR 0x0C then [CHR 0x5C, CHR ''f'']
      else if (of_char c :: nat) < 32 \<or> 126 < (of_char c :: nat) then
        [CHR 0x5C, CHR ''u'', CHR ''0'', CHR ''0'',
         hex_digit (of_char c div 16), hex_digit (of_char c mod 16)]
      else [c])"

definition quote :: "string \<Rightarrow> string" where
  "quote s = CHR 0x22 # concat (map escape_char s) @ [CHR 0x22]"

fun json_write :: "pyval \<Rightarrow> string" where
  "json_write PNone = ''null''"
| "json_write (PBool b) = (if b then ''true'' else ''false'')"
| "json_write (PInt n) = str_int n"
| "json_write (PStr s) = quote s"
| "json_write (PList xs) = ''['' @ join '', '' (map json_write xs) @ '']''"
| "json_write (PTuple xs) = ''['' @ join '', '' (map json_write xs) @ '']''"
| "json_write (PDict d) =
     ''{'' @ join '', '' (map (\<lambda>kv. quote (fst kv) @ '': '' @ json_write (snd kv)) d) @ ''}''"

text \<open>
  The characters of a well-formed UTF-8 byte string; a character above U+00FF
  has no 8-bit form and is shown as a question mark.
\<close>

fun utf8_text :: "byte list \<Rightarrow> string" where
  "utf8_text [] = []"
| "utf8_text (b # bs) =
     (if b \<le> 0x7F then char_of (unat b) # utf8_text bs
      else if b \<le> 0xC3 then
        (case bs of
           [] \<Rightarrow> []
         | c # r \<Rightarrow> char_of (64 * (unat b - 0xC0) + (unat c - 0x80)) # utf8_text r)
      else if b \<le> 0xDF then CHR ''?'' # utf8_text (drop 1 bs)
      else if b \<le> 0xEF then CHR ''?'' # utf8_text (drop 2 bs)
      else CHR ''?'' # utf8_text (drop 3 bs))"

definition ref :: pyrt where
  "ref = \<lparr>json_loads = json_read, json_dumps = json_write,
          decode_text = utf8_text, int_of_str = read_int\<rparr>"

section \<open>Reading a parsed wire object\<close>

text \<open>The string stored under a key of a JSON object, when there is one.\<close>

definition str_at :: "pyval \<Rightarrow> string \<Rightarrow> string option" where
  "str_at data k =
     (case data of
        PDict d \<Rightarrow> (case map_of d k of Some (PStr s) \<Rightarrow> Some s | _ \<Rightarrow> None)
      | _ \<Rightarrow> None)"

text \<open>The value stored under a key of a JSON object, when there is one.\<close>

definition field_at :: "pyval \<Rightarrow> string \<Rightarrow> pyval option" where
  "field_at data k = (case data of PDict d \<Rightarrow> map_of d k | _ \<Rightarrow> None)"

section \<open>The module's own run\<close>

text \<open>
  The message that the \<^verbatim>\<open>__main__\<close> block builds and sends through
  \<^verbatim>\<open>Message.loads(m.dumps())\<close>, for a color \<open>c\<close> (the block takes
  \<^verbatim>\<open>Color(fg=5, bg=6)\<close>): one run of rich text, italic and colored.
\<close>

definition main_message :: "Color \<Rightarrow> Message" where
  "main_message c =
     Message_init ''telegram'' ''tester'' ''tester2'' ''test'' ''text''
       None None None False None None
       (Some [(TextStyle_init (Some c) 1 0 0 0, PStr ''test'')])"

section \<open>What JSON text preserves\<close>

text \<open>
  \<^verbatim>\<open>json.dumps\<close> writes a tuple as an array, so \<^verbatim>\<open>json.loads\<close> reads it back
  as a list; every other modelled value is read back as it was.
\<close>

fun json_norm :: "pyval \<Rightarrow> pyval" where
  "json_norm (PTuple xs) = PList (map json_norm xs)"
| "json_norm (PList xs) = PList (map json_norm xs)"
| "json_norm (PDict d) = PDict (map (\<lambda>kv. (fst kv, json_norm (snd kv))) d)"
| "json_norm PNone = PNone"
| "json_norm (PBool b) = PBool b"
| "json_norm (PInt n) = PInt n"
| "json_norm (PStr s) = PStr s"

section \<open>Basic facts\<close>

lemma bind_err_simps [simp]:
  "bind_err (Inr x) f = f x"
  "bind_err (Inl e) f = Inl e"
  by (simp_all add: bind_err_def)

lemma lenient_simps [simp]:
  "lenient (Inr x) = Inr (Some x)"
  "lenient (Inl ValidationError) = Inr None"
  by (simp_all add: lenient_def)

lemma unpack_ints_length:
  "py_iter v = Inr xs \<Longrightarrow> length xs \<noteq> 2 \<Longrightarrow> unpack_ints L v = Inl ValueError"
  apply (cases xs; simp add: unpack_ints_def)
  subgoal for a list by (cases list; simp; cases "tl list"; simp)
  done

section \<open>ColorField\<close>

lemma ColorField_roundtrip_none:
  "ColorField_deserialize L (ColorField_serialize None) = Inr None"
  by (simp add: ColorField_deserialize_def ColorField_serialize_def)

lemma ColorField_roundtrip_bg:
  "ColorField_deserialize L (ColorField_serialize (Some \<lparr>fg = a, bg = Some b\<rparr>)) =
     Inr (Some \<lparr>fg = a, bg = Some b\<rparr>)"
  by (simp add: ColorField_deserialize_def ColorField_serialize_def unpack_ints_def)

text \<open>
  C2. The round trip of a color holds when the color is absent or has a
  background (the two lemmas above). It fails for every color without a
  background: \<^verbatim>\<open>_serialize\<close> writes the pair \<open>(fg, None)\<close>, and on that pair
  \<^verbatim>\<open>int(None)\<close> raises inside \<^verbatim>\<open>_deserialize\<close>, which answers with
  \<^verbatim>\<open>ValidationError\<close>. Here for \<^verbatim>\<open>Color(5)\<close>.
\<close>

theorem ColorField_roundtrip_fg_only:
  "ColorField_serialize (Some \<lparr>fg = 5, bg = None\<rparr>) = PTuple [PInt 5, PNone] \<and>
   ColorField_deserialize L (ColorField_serialize (Some \<lparr>fg = 5, bg = None\<rparr>)) =
     Inl ValidationError"
  by (simp add: ColorField_deserialize_def ColorField_serialize_def unpack_ints_def)

lemma ColorField_deserialize_two:
  assumes "py_iter v = Inr [p, q]"
  shows "ColorField_deserialize L v =
     (case py_int L p of
        Inl x \<Rightarrow> Inl ValidationError
      | Inr a \<Rightarrow> (case py_int L q of
                    Inl x \<Rightarrow> Inl ValidationError
                  | Inr b \<Rightarrow> Inr (Some \<lparr>fg = a, bg = Some b\<rparr>)))"
proof -
  have u: "unpack_ints L v =
     (case py_int L p of
        Inl x \<Rightarrow> Inl x
      | Inr a \<Rightarrow> (case py_int L q of Inl x \<Rightarrow> Inl x | Inr b \<Rightarrow> Inr (a, b)))"
    using assms by (simp add: unpack_ints_def)
  have "ColorField_deserialize L v =
     (case unpack_ints L v of
        Inl e \<Rightarrow> Inl ValidationError
      | Inr (a, b) \<Rightarrow> Inr (Some \<lparr>fg = a, bg = Some b\<rparr>))"
    using assms by (cases v) (auto simp: ColorField_deserialize_def)
  then show ?thesis
    unfolding u by (simp split: sum.splits)
qed

text \<open>
  C6, as the claim states it, fails on the list \<open>["1", "2"]\<close>: its elements are
  not integers, but \<^verbatim>\<open>map(int, value)\<close> converts them and the color \<open>(1, 2)\<close> is
  returned where the claim has an error. It also fails at the integer 0:
  \<^verbatim>\<open>not 0\<close> holds, so the first branch returns \<^verbatim>\<open>None\<close> and no color with
  \<open>fg = 0\<close> is built.
\<close>

theorem ColorField_deserialize_other_shapes:
  "ColorField_deserialize ref (PList [PStr ''1'', PStr ''2'']) =
     Inr (Some \<lparr>fg = 1, bg = Some 2\<rparr>) \<and>
   ColorField_deserialize ref (PList [PStr ''1'', PStr ''2'']) \<noteq> Inl ValidationError \<and>
   ColorField_deserialize ref (PInt 0) = Inr None \<and>
   ColorField_deserialize ref (PInt 0) \<noteq> Inr (Some \<lparr>fg = 0, bg = None\<rparr>)"
  by code_simp

text \<open>
  C6, amended. \<^verbatim>\<open>ColorField._deserialize\<close> returns \<^verbatim>\<open>None\<close> on every falsy
  input (0 included) and a color with that foreground and no background on
  every integer other than 0 (and on \<^verbatim>\<open>True\<close>, the integer 1). On every other
  input it iterates: when the iteration does not yield exactly two elements
  it fails with \<^verbatim>\<open>ValidationError\<close>, as on \<open>[1, 2, 3]\<close> and \<open>"red"\<close>; when it
  yields two elements and \<^verbatim>\<open>int\<close> rejects one of them it fails with
  \<^verbatim>\<open>ValidationError\<close>, as on \<open>[5, None]\<close> and on two strings that are no
  numerals; when \<^verbatim>\<open>int\<close> accepts both, it returns the color of the two
  converted values, so a list or tuple of two integers gives \<open>(a, b)\<close>, and
  two strings that \<^verbatim>\<open>int\<close> accepts are decoded too. It raises no other
  exception.
\<close>

theorem ColorField_deserialize_contract:
  "(\<not> truthy v \<longrightarrow> ColorField_deserialize L v = Inr None) \<and>
   (n \<noteq> 0 \<longrightarrow> ColorField_deserialize L (PInt n) = Inr (Some \<lparr>fg = n, bg = None\<rparr>)) \<and>
   ColorField_deserialize L (PList [PInt a, PInt b]) = Inr (Some \<lparr>fg = a, bg = Some b\<rparr>) \<and>
   ColorField_deserialize L (PTuple [PInt a, PInt b]) = Inr (Some \<lparr>fg = a, bg = Some b\<rparr>) \<and>
   (truthy v \<and> py_iter v = Inr xs \<and> length xs \<noteq> 2 \<longrightarrow>
      ColorField_deserialize L v = Inl ValidationError) \<and>
   ColorField_deserialize L (PList [PInt 1, PInt 2, PInt 3]) = Inl ValidationError \<and>
   ColorField_deserialize L (PStr ''red'') = Inl ValidationError \<and>
   (ColorField_deserialize L v = Inl e \<longrightarrow> e = ValidationError) \<and>
   (int_of_str L s1 = Some x \<and> int_of_str L s2 = Some y \<longrightarrow>
      ColorField_deserialize L (PList [PStr s1, PStr s2]) = Inr (Some \<lparr>fg = x, bg = Some y\<rparr>)) \<and>
   (py_iter v = Inr [p, q] \<and> ((\<exists>z. py_int L p = Inl z) \<or> (\<exists>z. py_int L q = Inl z)) \<longrightarrow>
      ColorField_deserialize L v = Inl ValidationError) \<and>
   (py_iter v = Inr [p, q] \<and> py_int L p = Inr f \<and> py_int L q = Inr g \<longrightarrow>
      ColorField_deserialize L v = Inr (Some \<lparr>fg = f, bg = Some g\<rparr>)) \<and>
   (int_of_str L s1 = None \<or> int_of_str L s2 = None \<longrightarrow>
      ColorField_deserialize L (PList [PStr s1, PStr s2]) = Inl ValidationError) \<and>
   ColorField_deserialize L (PList [PInt 5, PNone]) = Inl ValidationError \<and>
   ColorField_deserialize L (PList [PList [], PInt 2]) = Inl ValidationError \<and>
   ColorField_deserialize L (PBool True) = Inr (Some \<lparr>fg = 1, bg = None\<rparr>)"
proof (intro conjI impI)
  assume "int_of_str L s1 = Some x \<and> int_of_str L s2 = Some y"
  then show "ColorField_deserialize L (PList [PStr s1, PStr s2]) =
      Inr (Some \<lparr>fg = x, bg = Some y\<rparr>)"
    by (simp add: ColorField_deserialize_def unpack_ints_def)
next
  assume h: "truthy v \<and> py_iter v = Inr xs \<and> length xs \<noteq> 2"
  then have "unpack_ints L v = Inl ValueError"
    by (simp add: unpack_ints_length)
  with h show "ColorField_deserialize L v = Inl ValidationError"
    by (cases v) (simp_all add: ColorField_deserialize_def)
next
  assume "ColorField_deserialize L v = Inl e"
  then show "e = ValidationError"
    by (cases v) (auto simp: ColorField_deserialize_def split: if_splits sum.splits prod.splits)
next
  assume "py_iter v = Inr [p, q] \<and> ((\<exists>z. py_int L p = Inl z) \<or> (\<exists>z. py_int L q = Inl z))"
  then show "ColorField_deserialize L v = Inl ValidationError"
    by (auto simp: ColorField_deserialize_two split: sum.splits)
next
  assume "py_iter v = Inr [p, q] \<and> py_int L p = Inr f \<and> py_int L q = Inr g"
  then show "ColorField_deserialize L v = Inr (Some \<lparr>fg = f, bg = Some g\<rparr>)"
    by (simp add: ColorField_deserialize_two)
next
  assume "int_of_str L s1 = None \<or> int_of_str L s2 = None"
  then show "ColorField_deserialize L (PList [PStr s1, PStr s2]) = Inl ValidationError"
    by (auto simp: ColorField_deserialize_two split: option.splits)
qed (simp_all add: ColorField_deserialize_def unpack_ints_def)

text \<open>
  C6 on the empty string, on 7, on lists and tuples of integers and of
  strings, and on the string \<open>"4x"\<close>.
\<close>

theorem ColorField_deserialize_contract_witness:
  "ColorField_deserialize ref (PStr []) = Inr None \<and>
   ColorField_deserialize ref (PInt 7) = Inr (Some \<lparr>fg = 7, bg = None\<rparr>) \<and>
   ColorField_deserialize ref (PList [PInt 5, PInt 6]) = Inr (Some \<lparr>fg = 5, bg = Some 6\<rparr>) \<and>
   ColorField_deserialize ref (PTuple [PInt 1]) = Inl ValidationError \<and>
   ColorField_deserialize ref (PList [PStr ''1'', PStr ''2'']) =
     Inr (Some \<lparr>fg = 1, bg = Some 2\<rparr>) \<and>
   ColorField_deserialize ref (PList [PStr ''a'', PStr ''b'']) = Inl ValidationError \<and>
   ColorField_deserialize ref (PStr ''4x'') = Inl ValidationError \<and>
   ColorField_deserialize ref (PTuple [PBool True, PStr ''12'']) =
     Inr (Some \<lparr>fg = 1, bg = Some 12\<rparr>)"
proof -
  have a: "int_of_str ref ''1'' = Some 1" and b: "int_of_str ref ''2'' = Some 2"
    and c: "int_of_str ref ''a'' = None" and d: "int_of_str ref ''x'' = None"
    and e: "int_of_str ref ''12'' = Some 12"
    by code_simp+
  have i1: "py_iter (PStr ''4x'') = Inr [PStr ''4'', PStr ''x'']"
    and i2: "py_iter (PTuple [PBool True, PStr ''12'']) = Inr [PBool True, PStr ''12'']"
    by simp_all
  have p1: "py_int ref (PStr ''x'') = Inl ValueError"
    and p2: "py_int ref (PBool True) = Inr 1" and p3: "py_int ref (PStr ''12'') = Inr 12"
    using d e by simp_all
  note t1 = ColorField_deserialize_contract
      [of "PStr []" ref 7 5 6 "[]" ValidationError "''1''" 1 "''2''" 2 "PNone" "PNone" 0 0]
  note t2 = ColorField_deserialize_contract
      [of "PTuple [PInt 1]" ref 7 5 6 "[PInt 1]" ValidationError "''a''" 1 "''b''" 2
        "PNone" "PNone" 0 0]
  note t3 = ColorField_deserialize_contract
      [of "PStr ''4x''" ref 7 5 6 "[]" ValidationError "''1''" 1 "''2''" 2
        "PStr ''4''" "PStr ''x''" 0 0]
  note t4 = ColorField_deserialize_contract
      [of "PTuple [PBool True, PStr ''12'']" ref 7 5 6 "[]" ValidationError "''1''" 1 "''2''" 2
        "PBool True" "PStr ''12''" 1 12]
  have "ColorField_deserialize ref (PStr ''4x'') = Inl ValidationError"
    using t3 i1 p1 by blast
  moreover have "ColorField_deserialize ref (PTuple [PBool True, PStr ''12'']) =
     Inr (Some \<lparr>fg = 1, bg = Some 12\<rparr>)"
    using t4 i2 p2 p3 by blast
  moreover have "ColorField_deserialize ref (PList [PStr ''a'', PStr ''b'']) = Inl ValidationError"
    using t2 c by blast
  ultimately show ?thesis
    using a b t1 t2 by simp
qed

section \<open>TextStyle and TextStyleField\<close>

lemma py_set_names: "py_set (PList (map PStr names)) = Inr (PStr ` set names)"
  by (simp add: py_set_def list_all_iff)

lemma py_set_str: "py_set (PStr s) = Inr ((\<lambda>c. PStr [c]) ` set s)"
  by (simp add: py_set_def list_all_iff)

text \<open>
  C7. On a list of style names \<^verbatim>\<open>TextStyleField._deserialize\<close> never fails and
  returns the bits of exactly the recognised names that occur in the list: the
  ITALIC bit iff \<open>italic\<close> occurs, the BOLD bit iff \<open>bold\<close> occurs, the
  UNDERLINE bit iff \<open>underline\<close> occurs. Every other name is ignored, and two
  lists with the same set of names (order and repetition apart) give the same
  result. On \<open>["bold", "sparkle"]\<close> the result is BOLD.
\<close>

theorem TextStyleField_deserialize_names:
  "TextStyleField_deserialize (PList (map PStr names)) =
     Inr ((if ''italic'' \<in> set names then ITALIC else 0) OR
          (if ''bold'' \<in> set names then BOLD else 0) OR
          (if ''underline'' \<in> set names then UNDERLINE else 0)) \<and>
   (set names = set names' \<longrightarrow>
      TextStyleField_deserialize (PList (map PStr names)) =
      TextStyleField_deserialize (PList (map PStr names'))) \<and>
   TextStyleField_deserialize (PList [PStr ''bold'', PStr ''sparkle'']) = Inr BOLD"
proof (intro conjI impI)
  show "TextStyleField_deserialize (PList (map PStr names)) =
     Inr ((if ''italic'' \<in> set names then ITALIC else 0) OR
          (if ''bold'' \<in> set names then BOLD else 0) OR
          (if ''underline'' \<in> set names then UNDERLINE else 0))"
    by (simp add: TextStyleField_deserialize_def py_set_names image_iff
        NORMAL_def ITALIC_def BOLD_def UNDERLINE_def)
next
  assume "set names = set names'"
  then show "TextStyleField_deserialize (PList (map PStr names)) =
      TextStyleField_deserialize (PList (map PStr names'))"
    by (simp add: TextStyleField_deserialize_def py_set_names)
next
  have "py_set (PList [PStr ''bold'', PStr ''sparkle'']) = Inr {PStr ''bold'', PStr ''sparkle''}"
    by (simp add: py_set_def)
  then show "TextStyleField_deserialize (PList [PStr ''bold'', PStr ''sparkle'']) = Inr BOLD"
    by (simp add: TextStyleField_deserialize_def NORMAL_def ITALIC_def BOLD_def UNDERLINE_def)
qed

text \<open>Two runs of C7: a list with a repeated unknown name, and two lists with one set of names.\<close>

theorem TextStyleField_deserialize_names_witness:
  "TextStyleField_deserialize (PList [PStr ''underline'', PStr ''x'', PStr ''italic'', PStr ''x'']) = Inr 10 \<and>
   TextStyleField_deserialize (PList [PStr ''bold'', PStr ''sparkle'']) =
   TextStyleField_deserialize (PList [PStr ''sparkle'', PStr ''bold'', PStr ''bold''])"
proof
  show "TextStyleField_deserialize
          (PList [PStr ''underline'', PStr ''x'', PStr ''italic'', PStr ''x'']) = Inr 10"
    using TextStyleField_deserialize_names [of "[''underline'', ''x'', ''italic'', ''x'']" "[]"]
    by (simp add: ITALIC_def BOLD_def UNDERLINE_def)
  have s: "set [''bold'', ''sparkle''] = set [''sparkle'', ''bold'', ''bold'']"
    by auto
  from TextStyleField_deserialize_names
         [of "[''bold'', ''sparkle'']" "[''sparkle'', ''bold'', ''bold'']",
          THEN conjunct2, THEN conjunct1, THEN mp, OF s]
  show "TextStyleField_deserialize (PList [PStr ''bold'', PStr ''sparkle'']) =
        TextStyleField_deserialize (PList [PStr ''sparkle'', PStr ''bold'', PStr ''bold''])"
    by simp
qed


text \<open>
  C10. On every string \<^verbatim>\<open>TextStyleField._deserialize\<close> returns NORMAL: the set
  of a string holds one-character strings, none of them a style name. It fails
  exactly on the inputs that \<^verbatim>\<open>set\<close> rejects, and then with
  \<^verbatim>\<open>ValidationError\<close>.
\<close>

theorem TextStyleField_deserialize_str:
  "TextStyleField_deserialize (PStr s) = Inr NORMAL \<and>
   ((\<exists>e. TextStyleField_deserialize v = Inl e) = (\<exists>e. py_set v = Inl e)) \<and>
   (TextStyleField_deserialize v = Inl e \<longrightarrow> e = ValidationError)"
proof (intro conjI impI)
  show "TextStyleField_deserialize (PStr s) = Inr NORMAL"
    by (auto simp: TextStyleField_deserialize_def py_set_str)
  show "(\<exists>e. TextStyleField_deserialize v = Inl e) = (\<exists>e. py_set v = Inl e)"
    by (auto simp: TextStyleField_deserialize_def Let_def split: sum.splits)
  assume "TextStyleField_deserialize v = Inl e"
  then show "e = ValidationError"
    by (auto simp: TextStyleField_deserialize_def Let_def split: sum.splits)
qed

text \<open>C10 on \<open>"bold"\<close>, on an integer and on a list that holds a list.\<close>

theorem TextStyleField_deserialize_str_witness:
  "TextStyleField_deserialize (PStr ''bold'') = Inr 0 \<and>
   TextStyleField_deserialize (PInt 3) = Inl ValidationError \<and>
   TextStyleField_deserialize (PList [PList []]) = Inl ValidationError"
proof -
  have a: "py_set (PInt 3) = Inl TypeError" by (simp add: py_set_def)
  have b: "py_set (PList [PList []]) = Inl TypeError" by (simp add: py_set_def)
  show ?thesis
    using TextStyleField_deserialize_str [of "''bold''" "PInt 3"]
      TextStyleField_deserialize_str [of "''bold''" "PList [PList []]"] a b
    by (auto simp: NORMAL_def)
qed

section \<open>Message.loads\<close>

lemma load_field_String: "load_field String_deserialize data k = Inr (str_at data k)"
  by (auto simp: load_field_def str_at_def Field_deserialize_def String_deserialize_def
      split: pyval.splits option.splits)

lemma load_field_only_validation:
  assumes "\<And>v e. f v = Inl e \<Longrightarrow> e = ValidationError"
  shows "\<exists>x. load_field f data k = Inr x"
proof (cases data)
  case (PDict d)
  show ?thesis
  proof (cases "map_of d k")
    case None
    with PDict show ?thesis by (simp add: load_field_def)
  next
    case (Some v)
    show ?thesis
    proof (cases "Field_deserialize f v")
      case (Inl e)
      then have "e = ValidationError"
        using assms by (auto simp: Field_deserialize_def split: if_splits)
      with Inl PDict Some show ?thesis by (simp add: load_field_def)
    next
      case (Inr x)
      with PDict Some show ?thesis by (simp add: load_field_def)
    qed
  qed
qed (simp_all add: load_field_def)

lemma Boolean_only: "Boolean_deserialize v = Inl e \<Longrightarrow> e = ValidationError"
  by (auto simp: Boolean_deserialize_def split: pyval.splits if_splits)

lemma Dict_only: "Dict_deserialize v = Inl e \<Longrightarrow> e = ValidationError"
  by (auto simp: Dict_deserialize_def split: pyval.splits)

lemma RichText_only: "RichTextField_deserialize L v = Inl e \<Longrightarrow> e = ValidationError"
  by (auto simp: RichTextField_deserialize_def split: if_splits sum.splits)

lemma load_field_mtype:
  "load_field (\<lambda>v. bind_err (String_deserialize v) (OneOf message_types)) data ''mtype'' =
     Inr (case str_at data ''mtype'' of
            None \<Rightarrow> None
          | Some t \<Rightarrow> if t \<in> set message_types then Some t else None)"
  by (auto simp: load_field_def str_at_def Field_deserialize_def String_deserialize_def OneOf_def
      split: pyval.splits option.splits)

lemma MessageSchema_load_shape:
  assumes "data \<noteq> PNone"
  shows "\<exists>url rt dt tm bm rm op.
     MessageSchema_load L data =
       Inr (Some \<lparr>kw_channel = str_at data ''channel'', kw_sender = str_at data ''sender'',
                  kw_receiver = str_at data ''receiver'',
                  kw_mtype = (case str_at data ''mtype'' of
                                None \<Rightarrow> None
                              | Some t \<Rightarrow> if t \<in> set message_types then Some t else None),
                  kw_media_url = url, kw_content = str_at data ''content'', kw_rich_text = rt,
                  kw_date = dt, kw_time = tm, kw_botmsg = bm, kw_room = rm, kw_opt = op\<rparr>)"
proof -
  obtain rt where rt: "load_field (RichTextField_deserialize L) data ''rich_text'' = Inr rt"
    using load_field_only_validation [of "RichTextField_deserialize L"] RichText_only by blast
  obtain bm where bm: "load_field Boolean_deserialize data ''botmsg'' = Inr bm"
    using load_field_only_validation [of Boolean_deserialize] Boolean_only by blast
  obtain op where op: "load_field Dict_deserialize data ''opt'' = Inr op"
    using load_field_only_validation [of Dict_deserialize] Dict_only by blast
  show ?thesis
    using assms by (simp add: MessageSchema_load_def load_field_String load_field_mtype rt bm op)
qed

lemma Message_loads_Str:
  "Message_loads L (Str s) = Inr (case Message_try L s of Inl e \<Rightarrow> sentinel | Inr m \<Rightarrow> m)"
  by (simp add: Message_loads_def)

lemma Message_try_parse_error: "json_loads L s = Inl e \<Longrightarrow> Message_try L s = Inl e"
  by (simp add: Message_try_def)

lemma str_at_PNone [simp]: "str_at PNone k = None"
  by (simp add: str_at_def)

lemma Message_try_missing:
  assumes "json_loads L s = Inr v"
    and "str_at v ''channel'' = None \<or> str_at v ''sender'' = None \<or>
         str_at v ''receiver'' = None \<or> str_at v ''content'' = None"
  shows "Message_try L s = Inl TypeError"
proof (cases "v = PNone")
  case True
  with assms show ?thesis by (simp add: Message_try_def MessageSchema_load_def)
next
  case False
  from MessageSchema_load_shape [OF False, of L] obtain kw where
    kw: "MessageSchema_load L v = Inr (Some kw)"
      "kw_channel kw = str_at v ''channel''" "kw_sender kw = str_at v ''sender''"
      "kw_receiver kw = str_at v ''receiver''" "kw_content kw = str_at v ''content''"
    by force
  with assms show ?thesis
    by (auto simp: Message_try_def Message_call_def split: option.splits)
qed

lemma Message_try_present:
  assumes "json_loads L s = Inr v"
    and "str_at v ''channel'' = Some c" "str_at v ''sender'' = Some sn"
    and "str_at v ''receiver'' = Some r" "str_at v ''content'' = Some t"
  shows "\<exists>m. Message_try L s = Inr m \<and> channel m = c \<and> sender m = sn \<and> receiver m = r \<and>
           content m = t \<and>
           mtype m = (case str_at v ''mtype'' of
                        None \<Rightarrow> ''text''
                      | Some x \<Rightarrow> if x \<in> set message_types then x else ''text'')"
proof -
  from assms have nn: "v \<noteq> PNone" by auto
  from MessageSchema_load_shape [OF nn, of L] obtain kw where
    kw: "MessageSchema_load L v = Inr (Some kw)"
      "kw_channel kw = str_at v ''channel''" "kw_sender kw = str_at v ''sender''"
      "kw_receiver kw = str_at v ''receiver''" "kw_content kw = str_at v ''content''"
      "kw_mtype kw = (case str_at v ''mtype'' of
                                None \<Rightarrow> None
                              | Some t \<Rightarrow> if t \<in> set message_types then Some t else None)"
    by force
  with assms show ?thesis
    by (auto simp: Message_try_def Message_call_def Message_init_def split: option.splits)
qed

lemma load_field_exact:
  assumes "\<And>w e. f w = Inl e \<Longrightarrow> e = ValidationError"
  shows "load_field f data k =
     Inr (case field_at data k of
            None \<Rightarrow> None
          | Some w \<Rightarrow> if w = PNone then None
                      else (case f w of Inl e \<Rightarrow> None | Inr x \<Rightarrow> Some x))"
proof (cases data)
  case (PDict d)
  show ?thesis
  proof (cases "map_of d k")
    case None
    with PDict show ?thesis by (simp add: load_field_def field_at_def)
  next
    case (Some w)
    show ?thesis
    proof (cases "f w")
      case (Inl e)
      with assms have "e = ValidationError" by blast
      with Inl PDict Some show ?thesis
        by (simp add: load_field_def field_at_def Field_deserialize_def)
    next
      case (Inr x)
      with PDict Some show ?thesis
        by (simp add: load_field_def field_at_def Field_deserialize_def)
    qed
  qed
qed (simp_all add: load_field_def field_at_def)

lemma MessageSchema_load_exact:
  assumes "data \<noteq> PNone"
  shows "MessageSchema_load L data =
       Inr (Some \<lparr>kw_channel = str_at data ''channel'', kw_sender = str_at data ''sender'',
                  kw_receiver = str_at data ''receiver'',
                  kw_mtype = (case str_at data ''mtype'' of
                                None \<Rightarrow> None
                              | Some t \<Rightarrow> if t \<in> set message_types then Some t else None),
                  kw_media_url = str_at data ''media_url'',
                  kw_content = str_at data ''content'',
                  kw_rich_text =
                    (case field_at data ''rich_text'' of
                       None \<Rightarrow> None
                     | Some w \<Rightarrow> if w = PNone then None
                                 else (case RichTextField_deserialize L w of
                                         Inl e \<Rightarrow> None | Inr x \<Rightarrow> Some x)),
                  kw_date = str_at data ''date'', kw_time = str_at data ''time'',
                  kw_botmsg =
                    (case field_at data ''botmsg'' of
                       None \<Rightarrow> None
                     | Some w \<Rightarrow> if w = PNone then None
                                 else (case Boolean_deserialize w of
                                         Inl e \<Rightarrow> None | Inr x \<Rightarrow> Some x)),
                  kw_room = str_at data ''room'',
                  kw_opt =
                    (case field_at data ''opt'' of
                       None \<Rightarrow> None
                     | Some w \<Rightarrow> if w = PNone then None
                                 else (case Dict_deserialize w of
                                         Inl e \<Rightarrow> None | Inr x \<Rightarrow> Some x))\<rparr>)"
  using assms
  by (simp add: MessageSchema_load_def load_field_String load_field_mtype
      load_field_exact [of "RichTextField_deserialize L", OF RichText_only]
      load_field_exact [of Boolean_deserialize, OF Boolean_only]
      load_field_exact [of Dict_deserialize, OF Dict_only])

lemma kept_rich_text:
  "(case (if w = PNone then None
          else (case RichTextField_deserialize L w of Inl e \<Rightarrow> None | Inr x \<Rightarrow> Some x)) of
      None \<Rightarrow> None
    | Some rt \<Rightarrow> rt) =
   (case RichTextField_deserialize L w of Inl e \<Rightarrow> None | Inr rs \<Rightarrow> rs)"
  by (simp add: RichTextField_deserialize_def split: sum.splits)

lemma kept_botmsg:
  "(case (if w = PNone then None
          else (case Boolean_deserialize w of Inl e \<Rightarrow> None | Inr x \<Rightarrow> Some x)) of
      None \<Rightarrow> False
    | Some b \<Rightarrow> b) =
   (case Boolean_deserialize w of Inl e \<Rightarrow> False | Inr b \<Rightarrow> b)"
  by (simp add: Boolean_deserialize_def split: sum.splits)

lemma kept_opt:
  "(case (if w = PNone then None
          else (case Dict_deserialize w of Inl e \<Rightarrow> None | Inr x \<Rightarrow> Some x)) of
      None \<Rightarrow> []
    | Some d \<Rightarrow> d) =
   (case w of PDict d \<Rightarrow> d | _ \<Rightarrow> [])"
  by (cases w) (simp_all add: Dict_deserialize_def)

lemma Message_try_exact:
  assumes "json_loads L s = Inr v"
    and "str_at v ''channel'' = Some c" "str_at v ''sender'' = Some sn"
    and "str_at v ''receiver'' = Some r" "str_at v ''content'' = Some t"
  shows "Message_try L s =
     Inr \<lparr>channel = c, sender = sn, receiver = r, content = t,
          rich_text = (case field_at v ''rich_text'' of
                         None \<Rightarrow> None
                       | Some w \<Rightarrow> (case RichTextField_deserialize L w of
                                      Inl e \<Rightarrow> None | Inr rs \<Rightarrow> rs)),
          mtype = (case str_at v ''mtype'' of
                     None \<Rightarrow> ''text''
                   | Some x \<Rightarrow> if x \<in> set message_types then x else ''text''),
          date = str_at v ''date'', time = str_at v ''time'',
          media_url = str_at v ''media_url'',
          botmsg = (case field_at v ''botmsg'' of
                      None \<Rightarrow> False
                    | Some w \<Rightarrow> (case Boolean_deserialize w of
                                   Inl e \<Rightarrow> False | Inr b \<Rightarrow> b)),
          room = str_at v ''room'',
          opt = (case field_at v ''opt'' of
                   None \<Rightarrow> []
                 | Some w \<Rightarrow> (case w of PDict d \<Rightarrow> d | _ \<Rightarrow> []))\<rparr>"
proof -
  from assms have nn: "v \<noteq> PNone" by auto
  have rich: "(case (case fo of
                       None \<Rightarrow> None
                     | Some w \<Rightarrow> if w = PNone then None
                                 else (case RichTextField_deserialize L w of
                                         Inl e \<Rightarrow> None | Inr x \<Rightarrow> Some x)) of
                 None \<Rightarrow> None
               | Some rt \<Rightarrow> rt) =
      (case fo of
         None \<Rightarrow> None
       | Some w \<Rightarrow> (case RichTextField_deserialize L w of Inl e \<Rightarrow> None | Inr rs \<Rightarrow> rs))" for fo
    by (cases fo) (simp_all add: kept_rich_text)
  have bot: "(case (case fo of
                       None \<Rightarrow> None
                     | Some w \<Rightarrow> if w = PNone then None
                                 else (case Boolean_deserialize w of
                                         Inl e \<Rightarrow> None | Inr x \<Rightarrow> Some x)) of
                None \<Rightarrow> False
              | Some b \<Rightarrow> b) =
      (case fo of
         None \<Rightarrow> False
       | Some w \<Rightarrow> (case Boolean_deserialize w of Inl e \<Rightarrow> False | Inr b \<Rightarrow> b))" for fo
    by (cases fo) (simp_all add: kept_botmsg)
  have op: "(case (case fo of
                       None \<Rightarrow> None
                     | Some w \<Rightarrow> if w = PNone then None
                                 else (case Dict_deserialize w of
                                         Inl e \<Rightarrow> None | Inr x \<Rightarrow> Some x)) of
               None \<Rightarrow> []
             | Some d \<Rightarrow> d) =
      (case fo of
         None \<Rightarrow> []
       | Some w \<Rightarrow> (case w of PDict d \<Rightarrow> d | _ \<Rightarrow> []))" for fo
    by (cases fo) (simp_all add: kept_opt)
  have mt: "(case (case str_at v ''mtype'' of
                     None \<Rightarrow> None
                   | Some t \<Rightarrow> if t \<in> set message_types then Some t else None) of
               None \<Rightarrow> ''text''
             | Some t \<Rightarrow> t) =
            (case str_at v ''mtype'' of
               None \<Rightarrow> ''text''
             | Some x \<Rightarrow> if x \<in> set message_types then x else ''text'')"
    by (simp split: option.splits)
  show ?thesis
    using assms(1)
    by (simp add: Message_try_def MessageSchema_load_exact [OF nn] Message_call_def
        Message_init_def assms(2-5) rich bot op mt)
qed

text \<open>
  C1, amended. \<^verbatim>\<open>Message.loads\<close> is total on text: for every string it returns a
  \<^verbatim>\<open>Message\<close> and raises nothing. It returns the fixed message whenever
  \<^verbatim>\<open>json.loads\<close> raises (as on \<open>"not json"\<close>), and whenever the parsed value
  lacks one of \<open>channel\<close>, \<open>sender\<close>, \<open>receiver\<close>, \<open>content\<close> as a string (a
  value that is not an object lacks all four). When the four are there, the
  result is the message that carries them and, field by field, the wire's
  value where it passes validation and the constructor's default where it is
  missing or fails: \<open>mtype\<close> a wire string of the enumerated kinds, else
  \<open>"text"\<close>; \<open>date\<close>, \<open>time\<close>, \<open>media_url\<close>, \<open>room\<close> a wire string, else
  \<^verbatim>\<open>None\<close>; \<open>botmsg\<close> what the Boolean field accepts, else \<^verbatim>\<open>False\<close>; \<open>opt\<close> a
  wire object, else empty; \<open>rich_text\<close> what \<^verbatim>\<open>RichTextField\<close> decodes, else
  \<^verbatim>\<open>None\<close>. So a validation failure of one of these fields does not lead to
  the fixed message.
\<close>

theorem Message_loads_total:
  "(\<exists>m. Message_loads L (Str s) = Inr m) \<and>
   (json_loads L s = Inl e \<longrightarrow> Message_loads L (Str s) = Inr sentinel) \<and>
   (json_loads L s = Inr v \<and>
    (str_at v ''channel'' = None \<or> str_at v ''sender'' = None \<or>
     str_at v ''receiver'' = None \<or> str_at v ''content'' = None) \<longrightarrow>
      Message_loads L (Str s) = Inr sentinel) \<and>
   (json_loads L s = Inr v \<and>
    str_at v ''channel'' = Some c \<and> str_at v ''sender'' = Some sn \<and>
    str_at v ''receiver'' = Some r \<and> str_at v ''content'' = Some t \<longrightarrow>
      Message_loads L (Str s) =
        Inr \<lparr>channel = c, sender = sn, receiver = r, content = t,
             rich_text = (case field_at v ''rich_text'' of
                            None \<Rightarrow> None
                          | Some w \<Rightarrow> (case RichTextField_deserialize L w of
                                         Inl e \<Rightarrow> None | Inr rs \<Rightarrow> rs)),
             mtype = (case str_at v ''mtype'' of
                        None \<Rightarrow> ''text''
                      | Some x \<Rightarrow> if x \<in> set message_types then x else ''text''),
             date = str_at v ''date'', time = str_at v ''time'',
             media_url = str_at v ''media_url'',
             botmsg = (case field_at v ''botmsg'' of
                         None \<Rightarrow> False
                       | Some w \<Rightarrow> (case Boolean_deserialize w of
                                      Inl e \<Rightarrow> False | Inr b \<Rightarrow> b)),
             room = str_at v ''room'',
             opt = (case field_at v ''opt'' of
                      None \<Rightarrow> []
                    | Some w \<Rightarrow> (case w of PDict d \<Rightarrow> d | _ \<Rightarrow> []))\<rparr>)"
proof (intro conjI impI)
  assume h: "json_loads L s = Inr v \<and>
    str_at v ''channel'' = Some c \<and> str_at v ''sender'' = Some sn \<and>
    str_at v ''receiver'' = Some r \<and> str_at v ''content'' = Some t"
  then have "Message_try L s =
        Inr \<lparr>channel = c, sender = sn, receiver = r, content = t,
             rich_text = (case field_at v ''rich_text'' of
                            None \<Rightarrow> None
                          | Some w \<Rightarrow> (case RichTextField_deserialize L w of
                                         Inl e \<Rightarrow> None | Inr rs \<Rightarrow> rs)),
             mtype = (case str_at v ''mtype'' of
                        None \<Rightarrow> ''text''
                      | Some x \<Rightarrow> if x \<in> set message_types then x else ''text''),
             date = str_at v ''date'', time = str_at v ''time'',
             media_url = str_at v ''media_url'',
             botmsg = (case field_at v ''botmsg'' of
                         None \<Rightarrow> False
                       | Some w \<Rightarrow> (case Boolean_deserialize w of
                                      Inl e \<Rightarrow> False | Inr b \<Rightarrow> b)),
             room = str_at v ''room'',
             opt = (case field_at v ''opt'' of
                      None \<Rightarrow> []
                    | Some w \<Rightarrow> (case w of PDict d \<Rightarrow> d | _ \<Rightarrow> []))\<rparr>"
    by (intro Message_try_exact) simp_all
  then show "Message_loads L (Str s) =
        Inr \<lparr>channel = c, sender = sn, receiver = r, content = t,
             rich_text = (case field_at v ''rich_text'' of
                            None \<Rightarrow> None
                          | Some w \<Rightarrow> (case RichTextField_deserialize L w of
                                         Inl e \<Rightarrow> None | Inr rs \<Rightarrow> rs)),
             mtype = (case str_at v ''mtype'' of
                        None \<Rightarrow> ''text''
                      | Some x \<Rightarrow> if x \<in> set message_types then x else ''text''),
             date = str_at v ''date'', time = str_at v ''time'',
             media_url = str_at v ''media_url'',
             botmsg = (case field_at v ''botmsg'' of
                         None \<Rightarrow> False
                       | Some w \<Rightarrow> (case Boolean_deserialize w of
                                      Inl e \<Rightarrow> False | Inr b \<Rightarrow> b)),
             room = str_at v ''room'',
             opt = (case field_at v ''opt'' of
                      None \<Rightarrow> []
                    | Some w \<Rightarrow> (case w of PDict d \<Rightarrow> d | _ \<Rightarrow> []))\<rparr>"
    by (simp add: Message_loads_Str)
qed (auto simp: Message_loads_Str Message_try_parse_error Message_try_missing)

text \<open>
  C1 on the text \<open>not json\<close>, on an object without a sender, and on an object
  whose \<open>date\<close>, \<open>botmsg\<close>, \<open>room\<close> and \<open>opt\<close> fail validation: these four
  take their defaults, \<open>time\<close> is kept.
\<close>

theorem Message_loads_total_witness:
  "json_loads ref ''not json'' = Inl ValueError \<and>
   Message_loads ref (Str ''not json'') = Inr sentinel \<and>
   json_loads ref ''{\"channel\": \"irc\", \"content\": 5}'' =
     Inr (PDict [(''channel'', PStr ''irc''), (''content'', PInt 5)]) \<and>
   Message_loads ref (Str ''{\"channel\": \"irc\", \"content\": 5}'') = Inr sentinel \<and>
   json_loads ref ''{\"channel\": \"web\", \"sender\": \"bob\", \"receiver\": \"dev\", \"content\": \"x\", \"date\": 7, \"botmsg\": 2, \"room\": null, \"opt\": [], \"time\": \"noon\"}'' =
     Inr (PDict [(''channel'', PStr ''web''), (''sender'', PStr ''bob''),
                 (''receiver'', PStr ''dev''), (''content'', PStr ''x''),
                 (''date'', PInt 7), (''botmsg'', PInt 2), (''room'', PNone),
                 (''opt'', PList []), (''time'', PStr ''noon'')]) \<and>
   Message_loads ref (Str ''{\"channel\": \"web\", \"sender\": \"bob\", \"receiver\": \"dev\", \"content\": \"x\", \"date\": 7, \"botmsg\": 2, \"room\": null, \"opt\": [], \"time\": \"noon\"}'') =
     Inr \<lparr>channel = ''web'', sender = ''bob'', receiver = ''dev'', content = ''x'',
          rich_text = None, mtype = ''text'', date = None, time = Some ''noon'',
          media_url = None, botmsg = False, room = None, opt = []\<rparr>"
proof -
  let ?s3 = "''{\"channel\": \"web\", \"sender\": \"bob\", \"receiver\": \"dev\", \"content\": \"x\", \"date\": 7, \"botmsg\": 2, \"room\": null, \"opt\": [], \"time\": \"noon\"}''"
  let ?v3 = "PDict [(''channel'', PStr ''web''), (''sender'', PStr ''bob''),
                 (''receiver'', PStr ''dev''), (''content'', PStr ''x''),
                 (''date'', PInt 7), (''botmsg'', PInt 2), (''room'', PNone),
                 (''opt'', PList []), (''time'', PStr ''noon'')]"
  have a: "json_loads ref ''not json'' = Inl ValueError"
    by code_simp
  have b: "json_loads ref ''{\"channel\": \"irc\", \"content\": 5}'' =
     Inr (PDict [(''channel'', PStr ''irc''), (''content'', PInt 5)])"
    by code_simp
  have c: "str_at (PDict [(''channel'', PStr ''irc''), (''content'', PInt 5)]) ''sender'' = None"
    by (simp add: str_at_def)
  have d: "json_loads ref ?s3 = Inr ?v3"
    by code_simp
  have f: "str_at ?v3 ''channel'' = Some ''web''" "str_at ?v3 ''sender'' = Some ''bob''"
    "str_at ?v3 ''receiver'' = Some ''dev''" "str_at ?v3 ''content'' = Some ''x''"
    "str_at ?v3 ''mtype'' = None" "str_at ?v3 ''date'' = None"
    "str_at ?v3 ''time'' = Some ''noon''" "str_at ?v3 ''media_url'' = None"
    "str_at ?v3 ''room'' = None" "field_at ?v3 ''rich_text'' = None"
    "field_at ?v3 ''botmsg'' = Some (PInt 2)" "field_at ?v3 ''opt'' = Some (PList [])"
    by (simp_all add: str_at_def field_at_def)
  have g: "Boolean_deserialize (PInt 2) = Inl ValidationError"
    by (simp add: Boolean_deserialize_def)
  have r1: "Message_loads ref (Str ''not json'') = Inr sentinel"
    using a Message_loads_total [of ref "''not json''" ValueError] by blast
  have r2: "Message_loads ref (Str ''{\"channel\": \"irc\", \"content\": 5}'') = Inr sentinel"
    using b c Message_loads_total [of ref "''{\"channel\": \"irc\", \"content\": 5}''" ValueError
      "PDict [(''channel'', PStr ''irc''), (''content'', PInt 5)]"] by blast
  have r3: "Message_loads ref (Str ?s3) =
     Inr \<lparr>channel = ''web'', sender = ''bob'', receiver = ''dev'', content = ''x'',
          rich_text = None, mtype = ''text'', date = None, time = Some ''noon'',
          media_url = None, botmsg = False, room = None, opt = []\<rparr>"
    using Message_loads_total [of ref ?s3 ValueError ?v3 "''web''" "''bob''" "''dev''" "''x''",
        THEN conjunct2, THEN conjunct2, THEN conjunct2, THEN mp, OF conjI [OF d]]
    by (simp add: f g)
  from a b d r1 r2 r3 show ?thesis by simp
qed

text \<open>
  C1, as the claim states it, fails: in the wire text below \<open>botmsg\<close> is
  \<open>"maybe"\<close>, the Boolean field fails validation, and \<^verbatim>\<open>Message.loads\<close>
  returns the message with the default \<open>botmsg = False\<close>, not the fixed one.
  The schema is not strict, so the failure is recorded in \<^verbatim>\<open>errors\<close>, which
  nothing reads, and no exception reaches the \<^verbatim>\<open>except\<close>.
\<close>

theorem Message_loads_keeps_invalid_botmsg:
  "json_loads ref ''{\"channel\": \"irc\", \"sender\": \"alice\", \"receiver\": \"#room\", \"content\": \"hi\", \"botmsg\": \"maybe\"}'' =
     Inr (PDict [(''channel'', PStr ''irc''), (''sender'', PStr ''alice''),
                 (''receiver'', PStr ''#room''), (''content'', PStr ''hi''),
                 (''botmsg'', PStr ''maybe'')]) \<and>
   Field_deserialize Boolean_deserialize (PStr ''maybe'') = Inl ValidationError \<and>
   Message_loads ref (Str ''{\"channel\": \"irc\", \"sender\": \"alice\", \"receiver\": \"#room\", \"content\": \"hi\", \"botmsg\": \"maybe\"}'') =
     Inr \<lparr>channel = ''irc'', sender = ''alice'', receiver = ''#room'', content = ''hi'',
          rich_text = None, mtype = ''text'', date = None, time = None, media_url = None,
          botmsg = False, room = None, opt = []\<rparr> \<and>
   Message_loads ref (Str ''{\"channel\": \"irc\", \"sender\": \"alice\", \"receiver\": \"#room\", \"content\": \"hi\", \"botmsg\": \"maybe\"}'') \<noteq>
     Inr sentinel"
  by code_simp

lemma str_at_mtype_invalid:
  assumes "v = PDict d" "map_of d ''mtype'' = Some w" "w \<notin> PStr ` set message_types"
  shows "(case str_at v ''mtype'' of
            None \<Rightarrow> ''text''
          | Some x \<Rightarrow> if x \<in> set message_types then x else ''text'') = ''text''"
  using assms by (auto simp: str_at_def split: pyval.splits option.splits)

lemma sentinel_mtype: "mtype sentinel = ''text''"
  by (simp add: sentinel_def Message_init_def)

lemma text_is_type: "''text'' \<in> set message_types"
  by (simp add: message_types_def)

text \<open>
  C3, amended. \<^verbatim>\<open>Message.loads\<close> never returns a message that carries an
  \<open>mtype\<close> outside the enumerated kinds. When the wire object has an \<open>mtype\<close>
  outside them, the value is dropped and the result has \<open>mtype = "text"\<close>: it
  is the message with the wire's channel, sender, receiver and content when
  those four are strings, and the fixed message when one of them is missing
  or not a string.
\<close>

theorem Message_loads_invalid_mtype:
  "(\<exists>m. Message_loads L (Str s) = Inr m \<and> mtype m \<in> set message_types) \<and>
   (json_loads L s = Inr (PDict d) \<and> map_of d ''mtype'' = Some w \<and>
    w \<notin> PStr ` set message_types \<longrightarrow>
      (\<exists>m. Message_loads L (Str s) = Inr m \<and> mtype m = ''text'') \<and>
      (str_at (PDict d) ''channel'' = Some c \<and> str_at (PDict d) ''sender'' = Some sn \<and>
       str_at (PDict d) ''receiver'' = Some r \<and> str_at (PDict d) ''content'' = Some t \<longrightarrow>
         (\<exists>m. Message_loads L (Str s) = Inr m \<and> channel m = c \<and> sender m = sn \<and>
              receiver m = r \<and> content m = t \<and> mtype m = ''text'')) \<and>
      (str_at (PDict d) ''channel'' = None \<or> str_at (PDict d) ''sender'' = None \<or>
       str_at (PDict d) ''receiver'' = None \<or> str_at (PDict d) ''content'' = None \<longrightarrow>
         Message_loads L (Str s) = Inr sentinel))"
proof (intro conjI impI)
  show "\<exists>m. Message_loads L (Str s) = Inr m \<and> mtype m \<in> set message_types"
  proof (cases "json_loads L s")
    case (Inl e)
    then show ?thesis
      by (simp add: Message_loads_Str Message_try_parse_error sentinel_mtype text_is_type)
  next
    case (Inr v)
    show ?thesis
    proof (cases "str_at v ''channel'' = None \<or> str_at v ''sender'' = None \<or>
         str_at v ''receiver'' = None \<or> str_at v ''content'' = None")
      case True
      with Inr show ?thesis
        by (simp add: Message_loads_Str Message_try_missing sentinel_mtype text_is_type)
    next
      case False
      then obtain c sn r t where
        "str_at v ''channel'' = Some c" "str_at v ''sender'' = Some sn"
        "str_at v ''receiver'' = Some r" "str_at v ''content'' = Some t"
        by auto
      from Message_try_present [OF Inr this] obtain m where
        m: "Message_try L s = Inr m"
          "mtype m = (case str_at v ''mtype'' of
                        None \<Rightarrow> ''text''
                      | Some x \<Rightarrow> if x \<in> set message_types then x else ''text'')"
        by blast
      then have "mtype m \<in> set message_types"
        by (auto simp: text_is_type split: option.splits)
      with m show ?thesis by (simp add: Message_loads_Str)
    qed
  qed
next
  assume h: "json_loads L s = Inr (PDict d) \<and> map_of d ''mtype'' = Some w \<and>
    w \<notin> PStr ` set message_types"
  then have mt: "(case str_at (PDict d) ''mtype'' of
            None \<Rightarrow> ''text''
          | Some x \<Rightarrow> if x \<in> set message_types then x else ''text'') = ''text''"
    by (intro str_at_mtype_invalid [of "PDict d" d w]) simp_all
  {
    assume p: "str_at (PDict d) ''channel'' = Some c \<and> str_at (PDict d) ''sender'' = Some sn \<and>
       str_at (PDict d) ''receiver'' = Some r \<and> str_at (PDict d) ''content'' = Some t"
    from h p Message_try_present [of L s "PDict d" c sn r t] mt
    show "\<exists>m. Message_loads L (Str s) = Inr m \<and> channel m = c \<and> sender m = sn \<and>
              receiver m = r \<and> content m = t \<and> mtype m = ''text''"
      by (auto simp: Message_loads_Str)
  }
  {
    assume "str_at (PDict d) ''channel'' = None \<or> str_at (PDict d) ''sender'' = None \<or>
       str_at (PDict d) ''receiver'' = None \<or> str_at (PDict d) ''content'' = None"
    with h show "Message_loads L (Str s) = Inr sentinel"
      by (simp add: Message_loads_Str Message_try_missing)
  }
  show "\<exists>m. Message_loads L (Str s) = Inr m \<and> mtype m = ''text''"
  proof (cases "str_at (PDict d) ''channel'' = None \<or> str_at (PDict d) ''sender'' = None \<or>
         str_at (PDict d) ''receiver'' = None \<or> str_at (PDict d) ''content'' = None")
    case True
    with h show ?thesis
      by (simp add: Message_loads_Str Message_try_missing sentinel_mtype)
  next
    case False
    then obtain c' sn' r' t' where
      "str_at (PDict d) ''channel'' = Some c'" "str_at (PDict d) ''sender'' = Some sn'"
      "str_at (PDict d) ''receiver'' = Some r'" "str_at (PDict d) ''content'' = Some t'"
      by auto
    from Message_try_present [OF conjunct1 [OF h] this] mt show ?thesis
      by (auto simp: Message_loads_Str)
  qed
qed

text \<open>
  C3, as the claim states it, fails: with \<open>mtype\<close> \<open>"bogus"\<close> and the four
  required fields in place, the result is the decoded message with the default
  \<open>mtype\<close>, not the fixed message.
\<close>

theorem Message_loads_bogus_mtype:
  "Message_loads ref (Str ''{\"channel\": \"irc\", \"sender\": \"alice\", \"receiver\": \"#room\", \"content\": \"hi\", \"mtype\": \"bogus\"}'') =
     Inr \<lparr>channel = ''irc'', sender = ''alice'', receiver = ''#room'', content = ''hi'',
          rich_text = None, mtype = ''text'', date = None, time = None, media_url = None,
          botmsg = False, room = None, opt = []\<rparr> \<and>
   Message_loads ref (Str ''{\"channel\": \"irc\", \"sender\": \"alice\", \"receiver\": \"#room\", \"content\": \"hi\", \"mtype\": \"bogus\"}'') \<noteq>
     Inr sentinel"
  by code_simp

text \<open>C3 on a wire text with the \<open>mtype\<close> \<open>"gif"\<close>.\<close>

theorem Message_loads_invalid_mtype_witness:
  "json_loads ref ''{\"channel\": \"web\", \"sender\": \"bob\", \"receiver\": \"dev\", \"content\": \"x\", \"mtype\": \"gif\"}'' =
     Inr (PDict [(''channel'', PStr ''web''), (''sender'', PStr ''bob''),
                 (''receiver'', PStr ''dev''), (''content'', PStr ''x''),
                 (''mtype'', PStr ''gif'')]) \<and>
   PStr ''gif'' \<notin> PStr ` set message_types \<and>
   (\<exists>m. Message_loads ref (Str ''{\"channel\": \"web\", \"sender\": \"bob\", \"receiver\": \"dev\", \"content\": \"x\", \"mtype\": \"gif\"}'') = Inr m \<and>
        channel m = ''web'' \<and> sender m = ''bob'' \<and> receiver m = ''dev'' \<and> content m = ''x'' \<and>
        mtype m = ''text'')"
proof -
  let ?s = "''{\"channel\": \"web\", \"sender\": \"bob\", \"receiver\": \"dev\", \"content\": \"x\", \"mtype\": \"gif\"}''"
  let ?d = "[(''channel'', PStr ''web''), (''sender'', PStr ''bob''),
             (''receiver'', PStr ''dev''), (''content'', PStr ''x''), (''mtype'', PStr ''gif'')]"
  have a: "json_loads ref ?s = Inr (PDict ?d)"
    by code_simp
  have b: "PStr ''gif'' \<notin> PStr ` set message_types"
    by (simp add: message_types_def)
  have c: "map_of ?d ''mtype'' = Some (PStr ''gif'')"
    by simp
  have d: "str_at (PDict ?d) ''channel'' = Some ''web'' \<and> str_at (PDict ?d) ''sender'' = Some ''bob'' \<and>
       str_at (PDict ?d) ''receiver'' = Some ''dev'' \<and> str_at (PDict ?d) ''content'' = Some ''x''"
    by (simp add: str_at_def)
  from a b c d
    Message_loads_invalid_mtype [of ref ?s ?d "PStr ''gif''" "''web''" "''bob''" "''dev''" "''x''"]
  show ?thesis by blast
qed

text \<open>
  C9. \<^verbatim>\<open>Message.loads\<close> is total on text only. On a \<^verbatim>\<open>bytes\<close> argument the
  decoding runs before the \<^verbatim>\<open>try\<close>: for every byte string that is not
  well-formed UTF-8 the \<^verbatim>\<open>UnicodeDecodeError\<close> reaches the caller and no
  message is returned; a well-formed one is handled as its text is.
\<close>

theorem Message_loads_bytes:
  "(\<not> utf8_valid b \<longrightarrow> Message_loads L (Bytes b) = Inl UnicodeDecodeError) \<and>
   (utf8_valid b \<longrightarrow> Message_loads L (Bytes b) = Message_loads L (Str (decode_text L b))) \<and>
   (\<exists>m. Message_loads L (Str s) = Inr m)"
  by (simp add: Message_loads_def bytes_decode_def)

text \<open>C9 on the byte \<open>0xFF\<close>, and on the two bytes of \<open>hi\<close>.\<close>

theorem Message_loads_bytes_witness:
  "\<not> utf8_valid [0xFF] \<and>
   Message_loads ref (Bytes [0xFF]) = Inl UnicodeDecodeError \<and>
   utf8_valid [0x68, 0x69] \<and>
   Message_loads ref (Bytes [0x68, 0x69]) = Message_loads ref (Str (decode_text ref [0x68, 0x69]))"
proof -
  have a: "\<not> utf8_valid [0xFF]" by code_simp
  have b: "utf8_valid [0x68, 0x69]" by code_simp
  from a b Message_loads_bytes [of "[0xFF]" ref] Message_loads_bytes [of "[0x68, 0x69]" ref]
  show ?thesis by blast
qed

section \<open>TextStyle.dump and TextStyle.load\<close>

lemma and_exp_eq: "st AND (2 ^ n :: int) = (if bit st n then 2 ^ n else 0)"
  by (rule bit_eqI) (auto simp: bit_simps)

lemma and_bit_if: "(if st AND 2 ^ n \<noteq> 0 then 2 ^ n else 0) = st AND (2 ^ n :: int)"
  by (simp add: and_exp_eq)

lemma style_bits_roundtrip:
  "TextStyleField_deserialize (TextStyleField_serialize (Some st)) = Inr (st AND 14)"
proof -
  have i: "''italic'' \<in> set (style_list st) \<longleftrightarrow> st AND 2 \<noteq> 0"
    and b: "''bold'' \<in> set (style_list st) \<longleftrightarrow> st AND 4 \<noteq> 0"
    and u: "''underline'' \<in> set (style_list st) \<longleftrightarrow> st AND 8 \<noteq> 0"
    by (auto simp: style_list_def ITALIC_def BOLD_def UNDERLINE_def)
  have a2: "(if st AND 2 \<noteq> 0 then 2 else 0) = st AND (2::int)"
    using and_bit_if [of st 1] by (simp cong del: if_weak_cong)
  have a4: "(if st AND 4 \<noteq> 0 then 4 else 0) = st AND (4::int)"
    using and_bit_if [of st 2] by (simp cong del: if_weak_cong)
  have a8: "(if st AND 8 \<noteq> 0 then 8 else 0) = st AND (8::int)"
    using and_bit_if [of st 3] by (simp cong del: if_weak_cong)
  have "(st AND 2) OR (st AND 4) OR (st AND 8) = st AND (2 OR 4 OR 8)"
    by (simp only: bit.conj_disj_distrib)
  then have "(if st AND 2 \<noteq> 0 then 2 else 0) OR (if st AND 4 \<noteq> 0 then 4 else 0) OR
        (if st AND 8 \<noteq> 0 then 8 else 0) = st AND (14 :: int)"
    unfolding a2 a4 a8 by simp
  moreover have "TextStyleField_deserialize (PList (map PStr (style_list st))) =
     Inr ((if ''italic'' \<in> set (style_list st) then ITALIC else 0) OR
          (if ''bold'' \<in> set (style_list st) then BOLD else 0) OR
          (if ''underline'' \<in> set (style_list st) then UNDERLINE else 0))"
    by (simp add: TextStyleField_deserialize_def py_set_names image_iff
        NORMAL_def ITALIC_def BOLD_def UNDERLINE_def)
  ultimately show ?thesis
    by (simp only: TextStyleField_serialize_def option.case i b u ITALIC_def BOLD_def UNDERLINE_def)
qed

lemma style_bits_restore:
  assumes "0 \<le> st" "st < 16"
  shows "(st AND 14) OR (st AND 1) = (st :: int)"
proof -
  have "take_bit 4 st = st"
    using assms by (simp add: take_bit_int_eq_self)
  then have "st AND 15 = st"
    by (simp add: take_bit_eq_mask mask_eq_exp_minus_1)
  moreover have "(st AND 14) OR (st AND 1) = st AND (14 OR 1)"
    by (simp only: bit.conj_disj_distrib)
  ultimately show ?thesis by simp
qed

text \<open>
  A style whose bits are among COLOR, ITALIC, BOLD and UNDERLINE, with the COLOR
  bit set iff a color is attached, comes back from \<^verbatim>\<open>TextStyle.load(s.dump())\<close>
  as it was, when the color (if any) has a background.
\<close>

lemma TextStyle_roundtrip:
  assumes "0 \<le> style t" "style t < 16"
    and "(style t AND COLOR \<noteq> 0) = (color t \<noteq> None)"
    and "color t = None \<or> (\<exists>f b. color t = Some \<lparr>fg = f, bg = Some b\<rparr>)"
  shows "TextStyle_load L (TextStyle_dump t) = Inr t"
proof -
  have r: "(style t AND 14) OR (style t AND 1) = style t"
    using assms(1,2) by (rule style_bits_restore)
  have one: "style t AND 1 = (if color t \<noteq> None then 1 else 0)"
    using assms(3) and_exp_eq [of "style t" 0] by (auto simp: COLOR_def)
  show ?thesis
  proof (cases "color t")
    case None
    with r one have "style t AND 14 = style t" by simp
    with None show ?thesis
      by (simp add: TextStyle_dump_def TextStyle_load_def TextStyleSchema_load_def
          style_bits_roundtrip [unfolded TextStyleField_serialize_def, simplified] Field_deserialize_def TextStyleField_serialize_def TextStyle_init_def)
  next
    case (Some c)
    with assms(4) obtain f b where c: "c = \<lparr>fg = f, bg = Some b\<rparr>" by auto
    from r one Some have "(style t AND 14) OR 1 = style t" by simp
    with Some c show ?thesis
      by (simp add: TextStyle_dump_def TextStyle_load_def TextStyleSchema_load_def
          style_bits_roundtrip [unfolded TextStyleField_serialize_def, simplified] Field_deserialize_def TextStyleField_serialize_def TextStyle_init_def
          ColorField_deserialize_def unpack_ints_def ColorField_serialize_def COLOR_def)
  qed
qed

text \<open>
  C4. The round trip fails for every style whose color has no background.
  Here for \<^verbatim>\<open>TextStyle(color=Color(5))\<close>: the dump holds the pair \<open>(5, None)\<close>,
  \<^verbatim>\<open>ColorField._deserialize\<close> fails on it, the schema (not strict) drops the
  color, and the loaded style has neither the color nor the COLOR bit.
\<close>

theorem TextStyle_roundtrip_fg_only:
  "TextStyle_init (Some \<lparr>fg = 5, bg = None\<rparr>) 0 0 0 0 =
     \<lparr>style = COLOR, color = Some \<lparr>fg = 5, bg = None\<rparr>\<rparr> \<and>
   TextStyle_dump (TextStyle_init (Some \<lparr>fg = 5, bg = None\<rparr>) 0 0 0 0) =
     PDict [(''color'', PTuple [PInt 5, PNone]), (''style'', PList [])] \<and>
   TextStyle_load L (TextStyle_dump (TextStyle_init (Some \<lparr>fg = 5, bg = None\<rparr>) 0 0 0 0)) =
     Inr \<lparr>style = NORMAL, color = None\<rparr>"
  by (simp add: TextStyle_init_def TextStyle_dump_def TextStyle_load_def TextStyleSchema_load_def
      ColorField_serialize_def ColorField_deserialize_def unpack_ints_def
      TextStyleField_serialize_def TextStyleField_deserialize_def Field_deserialize_def
      style_list_def py_set_def NORMAL_def COLOR_def ITALIC_def BOLD_def UNDERLINE_def)

section \<open>Message.dumps and Message.loads\<close>

text \<open>
  The run of the \<^verbatim>\<open>__main__\<close> block (the end-to-end scenario, with
  \<^verbatim>\<open>Color(5, 6)\<close>): the wire text, and the decoded message is the original one,
  its run italic and colored with fg 5 and bg 6.
\<close>

lemma Message_roundtrip_main:
  "Message_dumps ref (main_message \<lparr>fg = 5, bg = Some 6\<rparr>) =
     ''{\"channel\": \"telegram\", \"sender\": \"tester\", \"receiver\": \"tester2\", \"mtype\": \"text\", \"media_url\": null, \"content\": \"test\", \"rich_text\": [[{\"color\": [5, 6], \"style\": [\"italic\"]}, \"test\"]], \"date\": null, \"time\": null, \"botmsg\": false, \"room\": null, \"opt\": {}}'' \<and>
   Message_loads ref (Str (Message_dumps ref (main_message \<lparr>fg = 5, bg = Some 6\<rparr>))) =
     Inr (main_message \<lparr>fg = 5, bg = Some 6\<rparr>) \<and>
   rich_text (main_message \<lparr>fg = 5, bg = Some 6\<rparr>) =
     Some [(\<lparr>style = 3, color = Some \<lparr>fg = 5, bg = Some 6\<rparr>\<rparr>, PStr ''test'')]"
  by code_simp

text \<open>
  C5. The round trip of a message fails when a color of its rich text has no
  background. Here for the message of the scenario with \<^verbatim>\<open>Color(5)\<close> in place
  of \<^verbatim>\<open>Color(5, 6)\<close>: the wire text holds \<open>[5, null]\<close>, the color fails to
  decode and is dropped, and the decoded run is italic with no color and no
  COLOR bit.
\<close>

theorem Message_roundtrip_fg_only:
  "Message_dumps ref (main_message \<lparr>fg = 5, bg = None\<rparr>) =
     ''{\"channel\": \"telegram\", \"sender\": \"tester\", \"receiver\": \"tester2\", \"mtype\": \"text\", \"media_url\": null, \"content\": \"test\", \"rich_text\": [[{\"color\": [5, null], \"style\": [\"italic\"]}, \"test\"]], \"date\": null, \"time\": null, \"botmsg\": false, \"room\": null, \"opt\": {}}'' \<and>
   rich_text (main_message \<lparr>fg = 5, bg = None\<rparr>) =
     Some [(\<lparr>style = 3, color = Some \<lparr>fg = 5, bg = None\<rparr>\<rparr>, PStr ''test'')] \<and>
   Message_loads ref (Str (Message_dumps ref (main_message \<lparr>fg = 5, bg = None\<rparr>))) =
     Inr ((main_message \<lparr>fg = 5, bg = None\<rparr>)
            \<lparr>rich_text := Some [(\<lparr>style = 2, color = None\<rparr>, PStr ''test'')]\<rparr>) \<and>
   Message_loads ref (Str (Message_dumps ref (main_message \<lparr>fg = 5, bg = None\<rparr>))) \<noteq>
     Inr (main_message \<lparr>fg = 5, bg = None\<rparr>)"
  by code_simp

section \<open>Round trips through JSON text\<close>

lemma json_norm_PStr [simp]: "json_norm \<circ> PStr = PStr"
  by (rule ext) simp

text \<open>
  The round trip of a style through JSON, where the color pair comes back as a
  list: it holds for every style whose bits are among the four constants, with
  the COLOR bit set iff a color is attached, and whose color (if any) has a
  background.
\<close>

lemma TextStyle_roundtrip_json:
  assumes "0 \<le> style t" "style t < 16"
    and "(style t AND COLOR \<noteq> 0) = (color t \<noteq> None)"
    and "color t = None \<or> (\<exists>f b. color t = Some \<lparr>fg = f, bg = Some b\<rparr>)"
  shows "TextStyle_load L (json_norm (TextStyle_dump t)) = Inr t"
proof -
  have r: "(style t AND 14) OR (style t AND 1) = style t"
    using assms(1,2) by (rule style_bits_restore)
  have one: "style t AND 1 = (if color t \<noteq> None then 1 else 0)"
    using assms(3) and_exp_eq [of "style t" 0] by (auto simp: COLOR_def)
  note sb = style_bits_roundtrip [unfolded TextStyleField_serialize_def, simplified]
  show ?thesis
  proof (cases "color t")
    case None
    with r one have "style t AND 14 = style t" by simp
    with None show ?thesis
      by (simp add: TextStyle_dump_def TextStyle_load_def TextStyleSchema_load_def
          sb Field_deserialize_def TextStyleField_serialize_def TextStyle_init_def)
  next
    case (Some c)
    with assms(4) obtain f b where c: "c = \<lparr>fg = f, bg = Some b\<rparr>" by auto
    from r one Some have "(style t AND 14) OR 1 = style t" by simp
    with Some c show ?thesis
      by (simp add: TextStyle_dump_def TextStyle_load_def TextStyleSchema_load_def
          sb Field_deserialize_def TextStyleField_serialize_def TextStyle_init_def
          ColorField_deserialize_def unpack_ints_def ColorField_serialize_def COLOR_def)
  qed
qed

lemma load_runs_roundtrip:
  assumes "list_all (\<lambda>r. is_str (snd r) \<and> 0 \<le> style (fst r) \<and> style (fst r) < 16 \<and>
             (style (fst r) AND COLOR \<noteq> 0) = (color (fst r) \<noteq> None) \<and>
             (color (fst r) = None \<or> (\<exists>f b. color (fst r) = Some \<lparr>fg = f, bg = Some b\<rparr>))) runs"
  shows "load_runs L (map json_norm (map (\<lambda>r. PTuple [TextStyle_dump (fst r), snd r]) runs)) = Inr runs"
  using assms
proof (induction runs)
  case Nil
  then show ?case by simp
next
  case (Cons r runs)
  then have t: "TextStyle_load L (json_norm (TextStyle_dump (fst r))) = Inr (fst r)"
    by (intro TextStyle_roundtrip_json) simp_all
  from Cons.prems have "is_str (snd r)" by simp
  then have s: "json_norm (snd r) = snd r"
    by (cases "snd r") (simp_all add: is_str_def)
  from Cons t s show ?case by simp
qed

text \<open>
  The round trip of a message, for every runtime whose \<^verbatim>\<open>json.loads\<close> reads
  back what its \<^verbatim>\<open>json.dumps\<close> wrote: it holds when \<open>mtype\<close> is one of the
  enumerated kinds, every run of the rich text is a string with a style as
  above, and \<open>opt\<close> holds no tuple. The null fields of the wire text fail
  validation on the way back and are dropped, which restores the \<^verbatim>\<open>None\<close> they
  stood for: the round trip rests on the schema not being strict.
\<close>

lemma Message_roundtrip:
  assumes json: "json_loads L (json_dumps L (Message_dump m)) = Inr (json_norm (Message_dump m))"
    and mt: "mtype m \<in> set message_types"
    and rt: "rich_text m = None \<or> (\<exists>runs. rich_text m = Some runs \<and>
          list_all (\<lambda>r. is_str (snd r) \<and> 0 \<le> style (fst r) \<and> style (fst r) < 16 \<and>
             (style (fst r) AND COLOR \<noteq> 0) = (color (fst r) \<noteq> None) \<and>
             (color (fst r) = None \<or> (\<exists>f b. color (fst r) = Some \<lparr>fg = f, bg = Some b\<rparr>))) runs)"
    and op: "json_norm (PDict (opt m)) = PDict (opt m)"
  shows "Message_loads L (Str (Message_dumps L m)) = Inr m"
proof -
  have str: "\<And>x. lenient (Field_deserialize String_deserialize (json_norm (opt_str x))) = Inr x"
    by (simp add: opt_str_def Field_deserialize_def String_deserialize_def split: option.splits)
  have rich: "\<exists>v. RichTextField_serialize (rich_text m) = Inr v \<and>
      lenient (Field_deserialize (RichTextField_deserialize L) (json_norm v)) = Inr (case rich_text m of None \<Rightarrow> None | Some rs \<Rightarrow> Some (Some rs))"
  proof (cases "rich_text m")
    case None
    then show ?thesis
      by (simp add: RichTextField_serialize_def Field_deserialize_def)
  next
    case (Some runs)
    with rt have ok: "list_all (\<lambda>r. is_str (snd r) \<and> 0 \<le> style (fst r) \<and> style (fst r) < 16 \<and>
             (style (fst r) AND COLOR \<noteq> 0) = (color (fst r) \<noteq> None) \<and>
             (color (fst r) = None \<or> (\<exists>f b. color (fst r) = Some \<lparr>fg = f, bg = Some b\<rparr>))) runs"
      by simp
    then have "list_all (\<lambda>r. is_str (snd r)) runs"
      by (simp add: list_all_iff)
    with Some load_runs_roundtrip [OF ok, of L] show ?thesis
      by (simp add: RichTextField_serialize_def RichTextField_deserialize_def Field_deserialize_def)
  qed
  then obtain v where v: "RichTextField_serialize (rich_text m) = Inr v"
    "lenient (Field_deserialize (RichTextField_deserialize L) (json_norm v)) =
       Inr (case rich_text m of None \<Rightarrow> None | Some rs \<Rightarrow> Some (Some rs))"
    by blast
  from op have op': "map (\<lambda>kv. (fst kv, json_norm (snd kv))) (opt m) = opt m"
    by simp
  have req: "\<And>x. lenient (Field_deserialize String_deserialize (PStr x)) = Inr (Some x)"
    by (simp add: Field_deserialize_def String_deserialize_def)
  have mty: "lenient (Field_deserialize (\<lambda>v. bind_err (String_deserialize v) (OneOf message_types))
               (PStr (mtype m))) = Inr (Some (mtype m))"
    using mt by (simp add: Field_deserialize_def String_deserialize_def OneOf_def)
  have bool: "lenient (Field_deserialize Boolean_deserialize (PBool (botmsg m))) =
               Inr (Some (botmsg m))"
    by (simp add: Field_deserialize_def Boolean_deserialize_def)
  have dict: "lenient (Field_deserialize Dict_deserialize (PDict (opt m))) = Inr (Some (opt m))"
    by (simp add: Field_deserialize_def Dict_deserialize_def)
  have "MessageSchema_load L (json_norm (Message_dump m)) =
     Inr (Some \<lparr>kw_channel = Some (channel m), kw_sender = Some (sender m),
                kw_receiver = Some (receiver m), kw_mtype = Some (mtype m),
                kw_media_url = media_url m, kw_content = Some (content m),
                kw_rich_text = (case rich_text m of None \<Rightarrow> None | Some rs \<Rightarrow> Some (Some rs)),
                kw_date = date m, kw_time = time m, kw_botmsg = Some (botmsg m),
                kw_room = room m, kw_opt = Some (opt m)\<rparr>)"
    by (simp add: MessageSchema_load_def Message_dump_def v load_field_def str op'
        req mty bool dict)
  then have "Message_try L (Message_dumps L m) = Inr m"
    using json
    by (simp add: Message_try_def Message_dumps_def Message_call_def Message_init_def
        split: option.splits)
  then show ?thesis
    by (simp add: Message_loads_Str)
qed

end
